theory Spec2Isabelle
  imports Complex_Main
begin

section \<open>JavaScript numbers\<close>

text \<open>
  A JavaScript number is an IEEE-754 double: a finite value, one of the two infinities, or
  NaN (the two zeros are not told apart). A finite double is carried as the real number it
  denotes. \<open>round_double\<close> rounds a real to the nearest double, ties to the even
  significand: \<open>exponent\<close> finds by bisection the binade of the magnitude, at least the
  one of the subnormal numbers, and the unit in the last place is 52 binary places
  below. \<open>to_double\<close> adds the overflow to an infinity. Every arithmetic operation of the
  source is the exact operation followed by this rounding.
\<close>

datatype jsnum = Fin real | PInf | NInf | NaN

definition pow2 :: "int \<Rightarrow> real" where
  "pow2 e = (if 0 \<le> e then 2 ^ nat e else 1 / 2 ^ nat (- e))"

fun binade :: "nat \<Rightarrow> int \<Rightarrow> int \<Rightarrow> real \<Rightarrow> int" where
  "binade 0 lo hi a = lo"
| "binade (Suc k) lo hi a =
     (let mid = (lo + hi) div 2
      in if pow2 mid \<le> a then binade k mid hi a else binade k lo mid a)"

definition exponent :: "real \<Rightarrow> int" where
  "exponent a = binade 11 (- 1022) 1024 a"

definition nearest_even :: "real \<Rightarrow> int" where
  "nearest_even y =
     (let f = \<lfloor>y\<rfloor>
      in if y - of_int f < 1 / 2 then f
         else if 1 / 2 < y - of_int f then f + 1
         else if even f then f else f + 1)"

definition round_double :: "real \<Rightarrow> real" where
  "round_double x =
     (let u = pow2 (exponent \<bar>x\<bar> - 52) in of_int (nearest_even (x / u)) * u)"

definition to_double :: "real \<Rightarrow> jsnum" where
  "to_double x =
     (let r = round_double x
      in if pow2 1024 \<le> r then PInf else if r \<le> - pow2 1024 then NInf else Fin r)"

text \<open>A real number that is a double.\<close>

definition is_double :: "real \<Rightarrow> bool" where
  "is_double x = (round_double x = x \<and> \<bar>x\<bar> < pow2 1024)"

text \<open>The product \<^verbatim>\<open>a * b\<close> of two numbers.\<close>

fun dmul :: "jsnum \<Rightarrow> jsnum \<Rightarrow> jsnum" where
  "dmul (Fin a) (Fin b) = to_double (a * b)"
| "dmul NaN y = NaN"
| "dmul x NaN = NaN"
| "dmul (Fin a) PInf = (if a = 0 then NaN else if 0 < a then PInf else NInf)"
| "dmul (Fin a) NInf = (if a = 0 then NaN else if 0 < a then NInf else PInf)"
| "dmul PInf (Fin b) = (if b = 0 then NaN else if 0 < b then PInf else NInf)"
| "dmul NInf (Fin b) = (if b = 0 then NaN else if 0 < b then NInf else PInf)"
| "dmul PInf PInf = PInf"
| "dmul PInf NInf = NInf"
| "dmul NInf PInf = NInf"
| "dmul NInf NInf = PInf"

text \<open>\<^verbatim>\<open>Math.floor\<close>, \<^verbatim>\<open>Math.max\<close> and the comparison \<^verbatim>\<open>a < b\<close>.\<close>

fun js_floor :: "jsnum \<Rightarrow> jsnum" where
  "js_floor (Fin r) = Fin (of_int \<lfloor>r\<rfloor>)"
| "js_floor n = n"

fun js_max :: "jsnum \<Rightarrow> jsnum \<Rightarrow> jsnum" where
  "js_max NaN y = NaN"
| "js_max x NaN = NaN"
| "js_max PInf y = PInf"
| "js_max x PInf = PInf"
| "js_max NInf y = y"
| "js_max x NInf = x"
| "js_max (Fin a) (Fin b) = Fin (max a b)"

fun js_less :: "jsnum \<Rightarrow> jsnum \<Rightarrow> bool" where
  "js_less NaN y = False"
| "js_less x NaN = False"
| "js_less PInf y = False"
| "js_less x NInf = False"
| "js_less NInf y = True"
| "js_less x PInf = True"
| "js_less (Fin a) (Fin b) = (a < b)"

section \<open>JavaScript values\<close>

text \<open>
  Values that come out of \<^verbatim>\<open>JSON.parse\<close> are modelled by the datatype below: an object
  is the association list of its own properties (looked up with \<open>map_of\<close>), an array is a
  list, a number is a \<open>jsnum\<close>. Strings are \<open>char list\<close>.
\<close>

datatype jsval =
    JUndefined
  | JNull
  | JBool bool
  | JNum jsnum
  | JStr string
  | JArr "jsval list"
  | JObj "(string \<times> jsval) list"

datatype exn = SyntaxError | TypeError | HostError

text \<open>\<^verbatim>\<open>ToBoolean\<close>, and the operator \<^verbatim>\<open>a || b\<close> built on it.\<close>

fun truthy :: "jsval \<Rightarrow> bool" where
  "truthy JUndefined = False"
| "truthy JNull = False"
| "truthy (JBool b) = b"
| "truthy (JNum n) = (n \<noteq> Fin 0 \<and> n \<noteq> NaN)"
| "truthy (JStr s) = (s \<noteq> [])"
| "truthy (JArr xs) = True"
| "truthy (JObj kvs) = True"

definition js_or :: "jsval \<Rightarrow> jsval \<Rightarrow> jsval" where
  "js_or a b = (if truthy a then a else b)"

text \<open>
  Property read \<^verbatim>\<open>v.k\<close> for the property names the protocol uses. None of them exists on
  the prototypes of strings, numbers, booleans or arrays, so only an object's own property
  can answer; everything else reads as \<^verbatim>\<open>undefined\<close>.
\<close>

fun get_prop :: "jsval \<Rightarrow> string \<Rightarrow> jsval" where
  "get_prop (JObj kvs) k = (case map_of kvs k of Some w \<Rightarrow> w | None \<Rightarrow> JUndefined)"
| "get_prop _ k = JUndefined"

text \<open>Array element read \<^verbatim>\<open>a[i]\<close>: out of range is \<^verbatim>\<open>undefined\<close>.\<close>

fun js_index :: "jsval \<Rightarrow> nat \<Rightarrow> jsval" where
  "js_index (JArr xs) i = (if i < length xs then xs ! i else JUndefined)"
| "js_index _ i = JUndefined"

text \<open>
  The product \<^verbatim>\<open>v * 100\<close>. The operand is first converted to a primitive, and that
  conversion throws a \<^verbatim>\<open>TypeError\<close> for an object whose own property \<^verbatim>\<open>toString\<close>
  shadows the inherited method (a parsed JSON value is never callable), and for an array
  that contains such an object, since \<^verbatim>\<open>Array.prototype.join\<close> converts each element.
  The numeric value of a string, and of an array through its joined string, is the
  language's \<^verbatim>\<open>StringToNumber\<close> grammar; it is the parameter \<open>tn\<close>.
\<close>

fun toPrimitive_throws :: "jsval \<Rightarrow> bool" where
  "toPrimitive_throws (JObj kvs) = (''toString'' \<in> set (map fst kvs))"
| "toPrimitive_throws (JArr xs) = list_ex toPrimitive_throws xs"
| "toPrimitive_throws v = False"

fun toNumber :: "(jsval \<Rightarrow> jsnum) \<Rightarrow> jsval \<Rightarrow> jsnum" where
  "toNumber tn JUndefined = NaN"
| "toNumber tn JNull = Fin 0"
| "toNumber tn (JBool b) = Fin (if b then 1 else 0)"
| "toNumber tn (JNum n) = n"
| "toNumber tn (JStr s) = tn (JStr s)"
| "toNumber tn (JArr xs) = tn (JArr xs)"
| "toNumber tn (JObj kvs) = NaN"

definition js_times100 :: "(jsval \<Rightarrow> jsnum) \<Rightarrow> jsval \<Rightarrow> exn + jsval" where
  "js_times100 tn v =
     (if toPrimitive_throws v then Inl TypeError
      else Inr (JNum (dmul (toNumber tn v) (Fin 100))))"

section \<open>Protocol: decoding one outbound frame\<close>

subsection \<open>String helpers\<close>

definition is_digit :: "char \<Rightarrow> bool" where
  "is_digit c = (c \<in> set ''0123456789'')"

definition digit_value :: "char \<Rightarrow> nat" where
  "digit_value c = of_char c - 48"

text \<open>\<^verbatim>\<open>/^[0-9]/.test(s)\<close> together with \<^verbatim>\<open>parseInt(s.charAt(0), 10)\<close> and \<^verbatim>\<open>s.substring(1)\<close>.\<close>

fun leading_digit :: "string \<Rightarrow> (nat \<times> string) option" where
  "leading_digit [] = None"
| "leading_digit (c # cs) = (if is_digit c then Some (digit_value c, cs) else None)"

fun startsWith :: "string \<Rightarrow> char \<Rightarrow> bool" where
  "startsWith [] c = False"
| "startsWith (d # ds) c = (d = c)"

text \<open>\<^verbatim>\<open>s.indexOf(',')\<close>, with \<open>None\<close> for \<^verbatim>\<open>-1\<close>.\<close>

fun indexOf :: "string \<Rightarrow> char \<Rightarrow> nat option" where
  "indexOf [] c = None"
| "indexOf (d # ds) c =
     (if d = c then Some 0 else (case indexOf ds c of None \<Rightarrow> None | Some i \<Rightarrow> Some (Suc i)))"

text \<open>\<^verbatim>\<open>parseInt(digits, 10)\<close> on a string of decimal digits: the double nearest to the
  number written (past 20 digits the language lets an implementation approximate; no
  statement below depends on the value).\<close>

definition parseInt :: "string \<Rightarrow> jsnum" where
  "parseInt ds = to_double (real (foldl (\<lambda>acc c. 10 * acc + digit_value c) 0 ds))"

subsection \<open>The packet\<close>

record packet =
  pk_type :: nat
  pk_namespace :: string
  pk_data :: jsval
  pk_id :: "jsnum option"

definition PACKET_MESSAGE :: nat where "PACKET_MESSAGE = 4"
definition MESSAGE_EVENT :: nat where "MESSAGE_EVENT = 2"

definition DRAWING_EVENTS :: "string list" where
  "DRAWING_EVENTS = [''draw'', ''clear'', ''undo'', ''line'', ''stroke'', ''path'']"

text \<open>
  The body of the \<^verbatim>\<open>try\<close> block of \<^verbatim>\<open>_parseSocketPacket\<close>. \<open>jp\<close> is
  \<^verbatim>\<open>JSON.parse\<close>, a parameter: \<open>None\<close> when it throws a \<^verbatim>\<open>SyntaxError\<close>. The result is
  \<open>Inl\<close> when the body throws, \<open>Inr None\<close> when it returns \<^verbatim>\<open>null\<close>.
  The regular expression \<^verbatim>\<open>/^(\d+)(?=[,])/\<close> matches the longest run of leading digits when
  it is not empty and a comma follows; the match does not include the comma, which
  therefore stays in front of the payload.
\<close>

definition parseSocketPacket_try :: "(string \<Rightarrow> jsval option) \<Rightarrow> string \<Rightarrow> exn + packet option" where
  "parseSocketPacket_try jp rawPacket =
     (let (engineType, packetStr) =
            (case leading_digit rawPacket of
               Some (d, rest) \<Rightarrow> (Some d, rest)
             | None \<Rightarrow> (None, rawPacket))
      in if engineType \<noteq> None \<and> engineType \<noteq> Some PACKET_MESSAGE then Inr None
         else (case leading_digit packetStr of
            None \<Rightarrow>
              (case jp packetStr of
                 None \<Rightarrow> Inl SyntaxError
               | Some d \<Rightarrow> Inr (Some \<lparr>pk_type = MESSAGE_EVENT, pk_namespace = ''/'',
                                      pk_data = d, pk_id = None\<rparr>))
          | Some (messageType, packetStr1) \<Rightarrow>
              (let (namespace, packetStr2) =
                     (if startsWith packetStr1 (CHR ''/'') then
                        (case indexOf packetStr1 (CHR '','') of
                           Some namespaceEnd \<Rightarrow>
                             (take namespaceEnd packetStr1, drop (namespaceEnd + 1) packetStr1)
                         | None \<Rightarrow> (''/'', packetStr1))
                      else (''/'', packetStr1));
                   digits = takeWhile is_digit packetStr2;
                   (ident, packetStr3) =
                     (if digits \<noteq> [] \<and> startsWith (dropWhile is_digit packetStr2) (CHR '','')
                      then (Some (parseInt digits), drop (length digits) packetStr2)
                      else (None, packetStr2));
                   data = (case jp packetStr3 of Some d \<Rightarrow> d | None \<Rightarrow> JStr packetStr3)
               in Inr (Some \<lparr>pk_type = messageType, pk_namespace = namespace,
                             pk_data = data, pk_id = ident\<rparr>))))"

text \<open>\<^verbatim>\<open>_parseSocketPacket\<close>: the \<^verbatim>\<open>catch\<close> turns every exception of the body into \<^verbatim>\<open>null\<close>.\<close>

definition parseSocketPacket :: "(string \<Rightarrow> jsval option) \<Rightarrow> string \<Rightarrow> packet option" where
  "parseSocketPacket jp rawPacket =
     (case parseSocketPacket_try jp rawPacket of Inl e \<Rightarrow> None | Inr r \<Rightarrow> r)"

definition isDrawingEvent :: "packet \<Rightarrow> bool" where
  "isDrawingEvent p =
     (if pk_type p \<noteq> MESSAGE_EVENT then False
      else (case pk_data p of
              JArr [] \<Rightarrow> False
            | JArr (JStr eventName # rest) \<Rightarrow> eventName \<in> set DRAWING_EVENTS
            | _ \<Rightarrow> False))"

record normalized =
  n_type :: string
  n_x :: jsval
  n_y :: jsval
  n_size :: jsval
  n_color :: jsval
  n_opacity :: jsval
  n_prevX :: jsval
  n_prevY :: jsval
  n_action :: "string option"

text \<open>One guarded assignment \<^verbatim>\<open>if (rawData.k !== undefined) normalized.f = rawData.k\<close>.\<close>

definition assign_if_defined ::
  "jsval \<Rightarrow> string \<Rightarrow> (jsval \<Rightarrow> normalized \<Rightarrow> normalized) \<Rightarrow> normalized \<Rightarrow> normalized" where
  "assign_if_defined rawData k upd n =
     (if get_prop rawData k \<noteq> JUndefined then upd (get_prop rawData k) n else n)"

text \<open>\<^verbatim>\<open>if (rawData.k !== undefined) normalized.opacity = rawData.k * 100\<close>; the product may throw.\<close>

definition assign_opacity ::
  "(jsval \<Rightarrow> jsnum) \<Rightarrow> jsval \<Rightarrow> string \<Rightarrow> normalized \<Rightarrow> exn + normalized" where
  "assign_opacity tn rawData k n =
     (if get_prop rawData k \<noteq> JUndefined then
        (case js_times100 tn (get_prop rawData k) of
           Inl e \<Rightarrow> Inl e
         | Inr v \<Rightarrow> Inr (n\<lparr>n_opacity := v\<rparr>))
      else Inr n)"

definition normalizeDrawingData ::
  "(jsval \<Rightarrow> jsnum) \<Rightarrow> string \<Rightarrow> jsval \<Rightarrow> exn + normalized" where
  "normalizeDrawingData tn eventType rawData =
     (let n0 = \<lparr>n_type = eventType, n_x = JNum (Fin 0), n_y = JNum (Fin 0), n_size = JNum (Fin 5),
                n_color = JStr ''#000000'', n_opacity = JNum (Fin 100),
                n_prevX = JNull, n_prevY = JNull, n_action = None\<rparr>;
          n1 = assign_if_defined rawData ''x'' (\<lambda>v n. n\<lparr>n_x := v\<rparr>) n0;
          n2 = assign_if_defined rawData ''y'' (\<lambda>v n. n\<lparr>n_y := v\<rparr>) n1;
          n3 = assign_if_defined rawData ''prevX'' (\<lambda>v n. n\<lparr>n_prevX := v\<rparr>) n2;
          n4 = assign_if_defined rawData ''prevY'' (\<lambda>v n. n\<lparr>n_prevY := v\<rparr>) n3;
          n5 = assign_if_defined rawData ''px'' (\<lambda>v n. n\<lparr>n_prevX := v\<rparr>) n4;
          n6 = assign_if_defined rawData ''py'' (\<lambda>v n. n\<lparr>n_prevY := v\<rparr>) n5;
          n7 = assign_if_defined rawData ''size'' (\<lambda>v n. n\<lparr>n_size := v\<rparr>) n6;
          n8 = assign_if_defined rawData ''width'' (\<lambda>v n. n\<lparr>n_size := v\<rparr>) n7;
          n9 = assign_if_defined rawData ''thickness'' (\<lambda>v n. n\<lparr>n_size := v\<rparr>) n8;
          n10 = assign_if_defined rawData ''color'' (\<lambda>v n. n\<lparr>n_color := v\<rparr>) n9;
          n11 = assign_if_defined rawData ''c'' (\<lambda>v n. n\<lparr>n_color := v\<rparr>) n10
      in case assign_opacity tn rawData ''opacity'' n11 of
           Inl e \<Rightarrow> Inl e
         | Inr n12 \<Rightarrow>
        (case assign_opacity tn rawData ''alpha'' n12 of
           Inl e \<Rightarrow> Inl e
         | Inr n13 \<Rightarrow>
        (case assign_opacity tn rawData ''a'' n13 of
           Inl e \<Rightarrow> Inl e
         | Inr n14 \<Rightarrow>
             Inr (if eventType = ''clear'' \<or> eventType = ''undo''
                  then n14\<lparr>n_action := Some eventType\<rparr> else n14))))"

record drawing_event =
  ev_type :: string
  ev_data :: normalized
  ev_timestamp :: int

text \<open>
  \<^verbatim>\<open>_extractDrawingData\<close>; \<open>now\<close> is the reading of \<^verbatim>\<open>Date.now()\<close>. The event name is the
  first array element, which \<open>isDrawingEvent\<close> has found to be a string of the whitelist.
\<close>

definition extractDrawingData ::
  "(jsval \<Rightarrow> jsnum) \<Rightarrow> int \<Rightarrow> packet \<Rightarrow> exn + drawing_event option" where
  "extractDrawingData tn now p =
     (if \<not> isDrawingEvent p then Inr None
      else (case js_index (pk_data p) 0 of
              JStr eventName \<Rightarrow>
                (let eventData = js_or (js_index (pk_data p) 1) (JObj [])
                 in case normalizeDrawingData tn eventName eventData of
                      Inl e \<Rightarrow> Inl e
                    | Inr normalizedData \<Rightarrow>
                        Inr (Some \<lparr>ev_type = eventName, ev_data = normalizedData,
                                   ev_timestamp = now\<rparr>))
            | _ \<Rightarrow> Inr None))"

text \<open>\<^verbatim>\<open>parse\<close>, the decoder's public entry point (logging under the debug flag left out).\<close>

definition parse ::
  "(string \<Rightarrow> jsval option) \<Rightarrow> (jsval \<Rightarrow> jsnum) \<Rightarrow> int \<Rightarrow> string
     \<Rightarrow> exn + drawing_event option" where
  "parse jp tn now rawPacket =
     (case parseSocketPacket jp rawPacket of
        None \<Rightarrow> Inr None
      | Some p \<Rightarrow> extractDrawingData tn now p)"

section \<open>Recorder: the capture session\<close>

record stroke_point =
  sp_type :: string
  sp_x :: jsval
  sp_y :: jsval
  sp_prevX :: jsval
  sp_prevY :: jsval
  sp_size :: jsval
  sp_color :: jsval
  sp_opacity :: jsval
  sp_time :: int
  sp_action :: "string option"

text \<open>
  A recording session; the stroke type is a parameter, so that the Recorder, the
  import/export module and the Player share the record. \<open>metadata\<close> is \<open>None\<close> where the
  object has no such property.
\<close>

record 's session =
  session_id :: string
  startTime :: int
  endTime :: int
  strokes :: "'s list"
  metadata :: "(string \<times> string) list option"

text \<open>
  \<^verbatim>\<open>_convertToStrokePoint\<close>. Its guard \<^verbatim>\<open>!drawingEvent || !drawingEvent.data\<close> cannot fire on a
  value of type \<open>drawing_event\<close>, whose data is an object; the result stays an option as in
  the source. A control event (clear, undo) has no \<^verbatim>\<open>prevX\<close>/\<^verbatim>\<open>prevY\<close> property. The
  normalized data has no property \<^verbatim>\<open>px\<close> or \<^verbatim>\<open>py\<close>, so these read as \<^verbatim>\<open>undefined\<close>.
\<close>

definition convertToStrokePoint :: "drawing_event \<Rightarrow> stroke_point option" where
  "convertToStrokePoint drawingEvent =
     (let d = ev_data drawingEvent in
      if ev_type drawingEvent = ''clear'' \<or> ev_type drawingEvent = ''undo'' then
        Some \<lparr>sp_type = ev_type drawingEvent, sp_x = JNum (Fin 0), sp_y = JNum (Fin 0),
              sp_prevX = JUndefined, sp_prevY = JUndefined,
              sp_size = JNum (Fin 0), sp_color = JStr ''#000000'', sp_opacity = JNum (Fin 0),
              sp_time = ev_timestamp drawingEvent, sp_action = Some (ev_type drawingEvent)\<rparr>
      else
        Some \<lparr>sp_type = ''line'',
              sp_x = js_or (n_x d) (JNum (Fin 0)),
              sp_y = js_or (n_y d) (JNum (Fin 0)),
              sp_prevX = js_or (js_or (n_prevX d) JUndefined) JNull,
              sp_prevY = js_or (js_or (n_prevY d) JUndefined) JNull,
              sp_size = js_or (n_size d) (JNum (Fin 5)),
              sp_color = js_or (n_color d) (JStr ''#000000''),
              sp_opacity = js_or (n_opacity d) (JNum (Fin 100)),
              sp_time = ev_timestamp drawingEvent, sp_action = None\<rparr>)"

text \<open>What \<^verbatim>\<open>WebSocket.prototype.send\<close> is called with: a string, or binary data.\<close>

datatype frame = Text string | Binary "nat list"

record notification =
  nt_type :: string
  nt_data :: stroke_point
  nt_session :: string

text \<open>
  The Recorder's closure variables. \<open>originalSend\<close> tells whether the original send method
  is saved, that is, whether the interception is installed. The data callback is host
  code, taken as an observer that does not call back into the Recorder: it answers
  \<open>Some e\<close> when it throws. \<open>notified\<close> logs the notifications handed to it.
\<close>

record recorder =
  isRecording :: bool
  currentSession :: "stroke_point session option"
  strokeBuffer :: "stroke_point list"
  originalSend :: bool
  onDataCallback :: "(notification \<Rightarrow> exn option) option"
  notified :: "notification list"

definition createRecorder :: recorder where
  "createRecorder = \<lparr>isRecording = False, currentSession = None, strokeBuffer = [],
                      originalSend = False, onDataCallback = None, notified = []\<rparr>"

text \<open>
  The part of \<^verbatim>\<open>_interceptedSend\<close> after the original method has returned: the recording
  gate, then the \<^verbatim>\<open>try\<close> block, whose \<^verbatim>\<open>catch\<close> swallows an exception of the decoder or of
  the callback. The point is pushed before the callback runs.
\<close>

definition processFrame ::
  "(string \<Rightarrow> jsval option) \<Rightarrow> (jsval \<Rightarrow> jsnum) \<Rightarrow> int \<Rightarrow> recorder \<Rightarrow> frame \<Rightarrow> recorder" where
  "processFrame jp tn now r d =
     (if \<not> isRecording r then r
      else case currentSession r of
        None \<Rightarrow> r
      | Some cur \<Rightarrow>
         (case d of
            Binary b \<Rightarrow> r
          | Text s \<Rightarrow>
             (case parse jp tn now s of
                Inl e \<Rightarrow> r
              | Inr None \<Rightarrow> r
              | Inr (Some drawingEvent) \<Rightarrow>
                 (case convertToStrokePoint drawingEvent of
                    None \<Rightarrow> r
                  | Some strokePoint \<Rightarrow>
                     (let r1 = r\<lparr>strokeBuffer := strokeBuffer r @ [strokePoint]\<rparr>;
                          note = \<lparr>nt_type = ''stroke'', nt_data = strokePoint,
                                  nt_session = session_id cur\<rparr>
                      in case onDataCallback r1 of
                           None \<Rightarrow> r1
                         | Some cb \<Rightarrow>
                            (case cb note of
                               None \<Rightarrow> r1\<lparr>notified := notified r1 @ [note]\<rparr>
                             | Some e \<Rightarrow> r1\<lparr>notified := notified r1 @ [note]\<rparr>))))))"

text \<open>
  \<^verbatim>\<open>_interceptedSend\<close>. The real transport is the parameter \<open>send\<close>, acting on a transport
  state \<open>w\<close>; it may throw. It is called first, with the frame as received; calling it
  while no original method is saved is a \<^verbatim>\<open>TypeError\<close>.
\<close>

definition interceptedSend ::
  "('w \<Rightarrow> frame \<Rightarrow> exn + 'w) \<Rightarrow> (string \<Rightarrow> jsval option) \<Rightarrow> (jsval \<Rightarrow> jsnum) \<Rightarrow> int
     \<Rightarrow> recorder \<times> 'w \<Rightarrow> frame \<Rightarrow> exn + recorder \<times> 'w" where
  "interceptedSend send jp tn now rw d =
     (case rw of (r, w) \<Rightarrow>
        if \<not> originalSend r then Inl TypeError
        else (case send w d of
                Inl e \<Rightarrow> Inl e
              | Inr w' \<Rightarrow> Inr (processFrame jp tn now r d, w')))"

definition patchWebSocket :: "recorder \<Rightarrow> recorder" where
  "patchWebSocket r = (if originalSend r then r else r\<lparr>originalSend := True\<rparr>)"

definition unpatchWebSocket :: "recorder \<Rightarrow> recorder" where
  "unpatchWebSocket r = (if \<not> originalSend r then r else r\<lparr>originalSend := False\<rparr>)"

text \<open>\<^verbatim>\<open>stopRecording\<close>; \<open>now\<close> is the reading of \<^verbatim>\<open>Date.now()\<close>.\<close>

definition stopRecording :: "int \<Rightarrow> recorder \<Rightarrow> stroke_point session option \<times> recorder" where
  "stopRecording now r =
     (if \<not> isRecording r then (None, r)
      else case currentSession r of
        None \<Rightarrow> (None, r)
      | Some cur \<Rightarrow>
         (Some (cur\<lparr>endTime := now, strokes := strokeBuffer r\<rparr>),
          r\<lparr>currentSession := None, strokeBuffer := [], isRecording := False\<rparr>))"

text \<open>
  \<^verbatim>\<open>startRecording\<close>; \<open>sessionId\<close> is what \<^verbatim>\<open>_generateSessionId\<close> returns and \<open>now\<close> the clock
  reading. A recording in progress is stopped first and its session dropped.
\<close>

definition startRecording :: "string \<Rightarrow> int \<Rightarrow> recorder \<Rightarrow> stroke_point session \<times> recorder" where
  "startRecording sessionId now r =
     (let r1 = (if isRecording r then snd (stopRecording now r) else r);
          r2 = patchWebSocket r1;
          s = \<lparr>session_id = sessionId, startTime = now, endTime = 0, strokes = [],
               metadata = Some [(''version'', ''1.0''), (''source'', ''gartic-phone-extension'')]\<rparr>
      in (s, r2\<lparr>currentSession := Some s, strokeBuffer := [], isRecording := True\<rparr>))"

definition isActive :: "recorder \<Rightarrow> bool" where
  "isActive r = isRecording r"

definition getCurrentSession :: "recorder \<Rightarrow> stroke_point session option" where
  "getCurrentSession r = currentSession r"

definition getStrokeCount :: "recorder \<Rightarrow> nat" where
  "getStrokeCount r = length (strokeBuffer r)"

definition setOnDataCallback :: "(notification \<Rightarrow> exn option) option \<Rightarrow> recorder \<Rightarrow> recorder" where
  "setOnDataCallback cb r = r\<lparr>onDataCallback := cb\<rparr>"

definition recorder_init :: "recorder \<Rightarrow> recorder" where
  "recorder_init r = patchWebSocket r"

definition recorder_destroy :: "int \<Rightarrow> recorder \<Rightarrow> recorder" where
  "recorder_destroy now r =
     (let r1 = (if isRecording r then snd (stopRecording now r) else r);
          r2 = unpatchWebSocket r1
      in r2\<lparr>strokeBuffer := [], onDataCallback := None\<rparr>)"

text \<open>
  Decoding followed by conversion, as \<^verbatim>\<open>_interceptedSend\<close> chains them on a textual frame:
  \<open>Inl\<close> when the decoder throws, \<open>Inr None\<close> when the frame gives no stroke point.
\<close>

definition decodeToStrokePoint ::
  "(string \<Rightarrow> jsval option) \<Rightarrow> (jsval \<Rightarrow> jsnum) \<Rightarrow> int \<Rightarrow> string
     \<Rightarrow> exn + stroke_point option" where
  "decodeToStrokePoint jp tn now s =
     (case parse jp tn now s of
        Inl e \<Rightarrow> Inl e
      | Inr None \<Rightarrow> Inr None
      | Inr (Some drawingEvent) \<Rightarrow> Inr (convertToStrokePoint drawingEvent))"

text \<open>
  A run of the host application: frames sent one after the other through the installed
  interception, each with the clock reading of its decoding. The run stops at the first
  exception that reaches the host.
\<close>

fun sendAll ::
  "('w \<Rightarrow> frame \<Rightarrow> exn + 'w) \<Rightarrow> (string \<Rightarrow> jsval option) \<Rightarrow> (jsval \<Rightarrow> jsnum)
     \<Rightarrow> recorder \<times> 'w \<Rightarrow> (int \<times> frame) list \<Rightarrow> exn + recorder \<times> 'w" where
  "sendAll send jp tn rw [] = Inr rw"
| "sendAll send jp tn rw ((now, d) # ds) =
     (case interceptedSend send jp tn now rw d of
        Inl e \<Rightarrow> Inl e
      | Inr rw' \<Rightarrow> sendAll send jp tn rw' ds)"

text \<open>The stroke point a frame is captured as while recording, if any.\<close>

definition captured ::
  "(string \<Rightarrow> jsval option) \<Rightarrow> (jsval \<Rightarrow> jsnum) \<Rightarrow> int \<times> frame \<Rightarrow> stroke_point option" where
  "captured jp tn nd =
     (case nd of
        (now, Binary b) \<Rightarrow> None
      | (now, Text s) \<Rightarrow>
          (case decodeToStrokePoint jp tn now s of
             Inr (Some strokePoint) \<Rightarrow> Some strokePoint
           | _ \<Rightarrow> None))"

text \<open>The states the Recorder can reach from its creation through its public operations
  and through frames arriving at the installed interception.\<close>

inductive reachable ::
  "(string \<Rightarrow> jsval option) \<Rightarrow> (jsval \<Rightarrow> jsnum) \<Rightarrow> recorder \<Rightarrow> bool"
  for jp :: "string \<Rightarrow> jsval option" and tn :: "jsval \<Rightarrow> jsnum" where
  reach_create: "reachable jp tn createRecorder"
| reach_init: "reachable jp tn r \<Longrightarrow> reachable jp tn (recorder_init r)"
| reach_start: "reachable jp tn r \<Longrightarrow> reachable jp tn (snd (startRecording sid now r))"
| reach_stop: "reachable jp tn r \<Longrightarrow> reachable jp tn (snd (stopRecording now r))"
| reach_frame: "reachable jp tn r \<Longrightarrow> originalSend r \<Longrightarrow> reachable jp tn (processFrame jp tn now r d)"
| reach_callback: "reachable jp tn r \<Longrightarrow> reachable jp tn (setOnDataCallback cb r)"
| reach_destroy: "reachable jp tn r \<Longrightarrow> reachable jp tn (recorder_destroy now r)"

section \<open>IO: the export format\<close>

record summary =
  sm_id :: string
  sm_startTime :: int
  sm_endTime :: int
  sm_duration :: int
  sm_strokesCount :: nat

text \<open>
  The object written to and read from a recording file. A top-level property that the
  object does not have is \<open>None\<close>.
\<close>

record 's export_data =
  ed_version :: "string option"
  ed_format :: "string option"
  ed_session :: "summary option"
  ed_strokes :: "'s list option"
  ed_metadata :: "(string \<times> string) list option"

text \<open>The object \<^verbatim>\<open>exportData\<close> that \<^verbatim>\<open>exportRecording\<close> builds from a session before it is
  serialised and offered for download.\<close>

definition exportData :: "'s session \<Rightarrow> 's export_data" where
  "exportData s =
     \<lparr>ed_version = Some ''1.0'',
      ed_format = Some ''gartic-timelapse'',
      ed_session = Some \<lparr>sm_id = session_id s, sm_startTime = startTime s,
                         sm_endTime = endTime s, sm_duration = endTime s - startTime s,
                         sm_strokesCount = length (strokes s)\<rparr>,
      ed_strokes = Some (strokes s),
      ed_metadata = Some (case metadata s of Some m \<Rightarrow> m | None \<Rightarrow> [])\<rparr>"

text \<open>
  The session that the load handler of \<^verbatim>\<open>importRecording\<close> builds from the parsed file
  content; \<open>fresh\<close> is the identifier made from the clock for a file without one. An
  unknown format only logs a warning.
\<close>

definition importSession :: "string \<Rightarrow> 's export_data \<Rightarrow> 's session" where
  "importSession fresh d =
     \<lparr>session_id = (case ed_session d of
                      None \<Rightarrow> fresh
                    | Some sm \<Rightarrow> if sm_id sm \<noteq> [] then sm_id sm else fresh),
      startTime = (case ed_session d of
                     None \<Rightarrow> 0
                   | Some sm \<Rightarrow> if sm_startTime sm \<noteq> 0 then sm_startTime sm else 0),
      endTime = (case ed_session d of
                   None \<Rightarrow> 0
                 | Some sm \<Rightarrow> if sm_endTime sm \<noteq> 0 then sm_endTime sm else 0),
      strokes = (case ed_strokes d of Some xs \<Rightarrow> xs | None \<Rightarrow> []),
      metadata = Some (case ed_metadata d of Some m \<Rightarrow> m | None \<Rightarrow> [])\<rparr>"

section \<open>Player: replaying a session\<close>

text \<open>The stroke point as the Player reads it: finite numbers for geometry and brush, a
  colour string.\<close>

record point =
  pt_x :: real
  pt_y :: real
  pt_size :: real
  pt_color :: string
  pt_opacity :: real
  pt_time :: real

text \<open>
  What \<^verbatim>\<open>_drawPoint\<close> paints. \<open>Segment x0 y0 x1 y1 lineWidth strokeStyle alpha\<close> is the stroked
  path from \<open>(x0, y0)\<close> to \<open>(x1, y1)\<close>; \<open>Dot x y radius fillStyle alpha\<close> is the filled full
  circle. The canvas is its size and the list of what was painted since it was last
  cleared.
\<close>

datatype drawop =
    Segment real real real real real string real
  | Dot real real real string real

record canvas =
  cv_width :: jsnum
  cv_height :: jsnum
  cv_ops :: "drawop list"

record state_change =
  sc_state :: string
  sc_progress :: real
  sc_currentStroke :: nat
  sc_totalStrokes :: nat

text \<open>
  The Player's closure variables. \<open>speed\<close> and \<open>loop\<close> are the configuration;
  \<open>playerSession\<close> is the variable \<^verbatim>\<open>currentSession\<close> of the Player; \<open>canvas\<close> stands for the
  canvas and its drawing context, which exist together; \<open>frameRequested\<close> tells whether an
  animation frame is pending. The two callbacks are observers: the state records whether
  one is registered, \<open>stateChanges\<close> logs what the state observer was called with and
  \<open>completions\<close> counts the calls of the completion observer.
\<close>

record player =
  speed :: real
  loop :: bool
  playerSession :: "point session option"
  canvas :: "canvas option"
  isPlaying :: bool
  isPaused :: bool
  currentStrokeIndex :: nat
  frameRequested :: bool
  lastFrameTime :: real
  onStateChangeCallback :: bool
  onCompleteCallback :: bool
  stateChanges :: "state_change list"
  completions :: nat

text \<open>\<^verbatim>\<open>createPlayer\<close> with the merged configuration (by default speed 50, no loop).\<close>

definition createPlayer :: "real \<Rightarrow> bool \<Rightarrow> player" where
  "createPlayer sp lp =
     \<lparr>speed = sp, loop = lp, playerSession = None, canvas = None,
      isPlaying = False, isPaused = False, currentStrokeIndex = 0,
      frameRequested = False, lastFrameTime = 0,
      onStateChangeCallback = False, onCompleteCallback = False,
      stateChanges = [], completions = 0\<rparr>"

definition clearCanvas :: "canvas option \<Rightarrow> canvas option" where
  "clearCanvas cv = (case cv of None \<Rightarrow> None | Some c \<Rightarrow> Some (c\<lparr>cv_ops := []\<rparr>))"

text \<open>
  \<^verbatim>\<open>_drawPoint\<close>: nothing without a context; a segment from the previous point when there
  is one, otherwise a dot. The last argument of the painted operation is the value
  assigned to \<^verbatim>\<open>globalAlpha\<close>. The two quotients cannot overflow.
\<close>

definition drawPoint :: "point \<Rightarrow> point option \<Rightarrow> canvas option \<Rightarrow> canvas option" where
  "drawPoint p prevPoint cv =
     (case cv of
        None \<Rightarrow> None
      | Some c \<Rightarrow>
         (let alpha = round_double (pt_opacity p / 100) in
          case prevPoint of
            Some q \<Rightarrow>
              Some (c\<lparr>cv_ops := cv_ops c @
                      [Segment (pt_x q) (pt_y q) (pt_x p) (pt_y p) (pt_size p) (pt_color p) alpha]\<rparr>)
          | None \<Rightarrow>
              Some (c\<lparr>cv_ops := cv_ops c @
                      [Dot (pt_x p) (pt_y p) (round_double (pt_size p / 2)) (pt_color p) alpha]\<rparr>)))"

text \<open>\<^verbatim>\<open>_calculateStrokesPerFrame\<close>, in the arithmetic of doubles.\<close>

definition calculateStrokesPerFrame :: "player \<Rightarrow> jsnum \<Rightarrow> jsnum" where
  "calculateStrokesPerFrame s deltaTime =
     (if speed s \<ge> 100 then js_floor (dmul (to_double (speed s - 99)) (Fin 10))
      else (let baseStrokesPerMs = to_double (1 / 16);
                strokesPerMs = dmul baseStrokesPerMs (to_double (speed s / 50))
            in js_max (Fin 1) (js_floor (dmul strokesPerMs deltaTime))))"

definition getProgress :: "player \<Rightarrow> real" where
  "getProgress s =
     (case playerSession s of
        None \<Rightarrow> 0
      | Some sess \<Rightarrow>
          if length (strokes sess) = 0 then 0
          else round_double (real (currentStrokeIndex s) / real (length (strokes sess))))"

definition notifyStateChange :: "string \<Rightarrow> player \<Rightarrow> player" where
  "notifyStateChange st s =
     (if onStateChangeCallback s then
        s\<lparr>stateChanges := stateChanges s @
            [\<lparr>sc_state = st, sc_progress = getProgress s,
              sc_currentStroke = currentStrokeIndex s,
              sc_totalStrokes = (case playerSession s of
                                   Some sess \<Rightarrow> length (strokes sess) | None \<Rightarrow> 0)\<rparr>]\<rparr>
      else s)"

text \<open>\<^verbatim>\<open>loadSession\<close>: an empty session is refused; a canvas is made when there is none,
  from the largest coordinates.\<close>

definition loadSession :: "point session \<Rightarrow> player \<Rightarrow> bool \<times> player" where
  "loadSession sess s =
     (if length (strokes sess) = 0 then (False, s)
      else
        (let s1 = s\<lparr>playerSession := Some sess, currentStrokeIndex := 0\<rparr>
         in case canvas s1 of
              Some c \<Rightarrow> (True, s1)
            | None \<Rightarrow>
               (let maxX = foldl (\<lambda>m stroke. max m (pt_x stroke)) 0 (strokes sess);
                    maxY = foldl (\<lambda>m stroke. max m (pt_y stroke)) 0 (strokes sess)
                in (True, s1\<lparr>canvas := Some \<lparr>cv_width = to_double (maxX + 100),
                                                cv_height = to_double (maxY + 100),
                                                cv_ops = []\<rparr>\<rparr>))))"

text \<open>\<^verbatim>\<open>play\<close>; \<open>now\<close> is the reading of \<^verbatim>\<open>performance.now()\<close>.\<close>

definition play :: "real \<Rightarrow> player \<Rightarrow> bool \<times> player" where
  "play now s =
     (case playerSession s of
        None \<Rightarrow> (False, s)
      | Some sess \<Rightarrow>
          if isPlaying s \<and> \<not> isPaused s then (False, s)
          else (True, notifyStateChange ''playing''
                        (s\<lparr>isPlaying := True, isPaused := False, lastFrameTime := now,
                           frameRequested := True\<rparr>)))"

definition onComplete :: "real \<Rightarrow> player \<Rightarrow> player" where
  "onComplete now s =
     (let s1 = s\<lparr>isPlaying := False, isPaused := False, frameRequested := False\<rparr>
      in if loop s1 then snd (play now s1)
         else notifyStateChange ''completed''
                (if onCompleteCallback s1 then s1\<lparr>completions := completions s1 + 1\<rparr> else s1))"

text \<open>
  The drawing loop of one tick: \<open>i\<close> counts the iterations, \<open>strokesToDraw\<close> bounds them,
  \<open>idx\<close> is the cursor, \<open>prevPoint\<close> the point drawn by the previous iteration of this
  loop.
\<close>

function drawStrokes ::
  "point list \<Rightarrow> jsnum \<Rightarrow> nat \<Rightarrow> point option \<Rightarrow> nat \<Rightarrow> canvas option \<Rightarrow> nat \<times> canvas option" where
  "drawStrokes ps strokesToDraw i prevPoint idx cv =
     (if js_less (Fin (real i)) strokesToDraw \<and> idx < length ps then
        (let p = ps ! idx
         in drawStrokes ps strokesToDraw (Suc i) (Some p) (Suc idx) (drawPoint p prevPoint cv))
      else (idx, cv))"
  by pat_completeness auto
termination
  by (relation "measure (\<lambda>(ps, strokesToDraw, i, prevPoint, idx, cv). length ps - idx)") auto

declare drawStrokes.simps [simp del]

text \<open>
  \<^verbatim>\<open>_animationLoop\<close>, one tick at time \<open>timestamp\<close>; \<open>now\<close> is the clock reading taken if
  the playback restarts. \<^verbatim>\<open>prevPoint\<close> starts as \<^verbatim>\<open>null\<close> in every tick.
\<close>

definition animationLoop :: "real \<Rightarrow> real \<Rightarrow> player \<Rightarrow> player" where
  "animationLoop timestamp now s =
     (if \<not> isPlaying s then s
      else if isPaused s then s
      else
        (let deltaTime = to_double (timestamp - lastFrameTime s);
             s1 = s\<lparr>lastFrameTime := timestamp\<rparr>
         in case playerSession s1 of
              None \<Rightarrow> onComplete now s1
            | Some sess \<Rightarrow>
               if currentStrokeIndex s1 \<ge> length (strokes sess) then onComplete now s1
               else
                 (let strokesToDraw = calculateStrokesPerFrame s1 deltaTime;
                      (idx, cv) = drawStrokes (strokes sess) strokesToDraw 0 None
                                    (currentStrokeIndex s1) (canvas s1)
                  in s1\<lparr>currentStrokeIndex := idx, canvas := cv, frameRequested := True\<rparr>)))"

definition pause :: "player \<Rightarrow> bool \<times> player" where
  "pause s =
     (if \<not> isPlaying s then (False, s)
      else if isPaused s then (False, s)
      else (True, notifyStateChange ''paused'' (s\<lparr>isPaused := True, frameRequested := False\<rparr>)))"

definition resume :: "real \<Rightarrow> player \<Rightarrow> bool \<times> player" where
  "resume now s =
     (if \<not> isPlaying s then (False, s)
      else if \<not> isPaused s then (False, s)
      else (True, notifyStateChange ''playing''
                    (s\<lparr>isPaused := False, lastFrameTime := now, frameRequested := True\<rparr>)))"

definition stop :: "player \<Rightarrow> bool \<times> player" where
  "stop s =
     (if \<not> isPlaying s then (False, s)
      else
        (let s1 = s\<lparr>isPlaying := False, isPaused := False, frameRequested := False,
                    currentStrokeIndex := 0\<rparr>;
             s2 = s1\<lparr>canvas := clearCanvas (canvas s1)\<rparr>
         in (True, notifyStateChange ''stopped'' s2)))"

text \<open>
  The redraw loop of \<^verbatim>\<open>seek\<close>, from index \<open>i\<close> up to \<open>targetIndex\<close> exclusive. Reading
  past the end of the strokes gives \<^verbatim>\<open>undefined\<close>, on which \<^verbatim>\<open>_drawPoint\<close> throws a
  \<^verbatim>\<open>TypeError\<close> once there is a context.
\<close>

function redraw ::
  "point list \<Rightarrow> nat \<Rightarrow> nat \<Rightarrow> point option \<Rightarrow> canvas option \<Rightarrow> exn + canvas option" where
  "redraw ps targetIndex i prevPoint cv =
     (if i < targetIndex then
        (if i < length ps then
           redraw ps targetIndex (Suc i) (Some (ps ! i)) (drawPoint (ps ! i) prevPoint cv)
         else if cv = None then redraw ps targetIndex (Suc i) None cv
         else Inl TypeError)
      else Inr cv)"
  by pat_completeness auto
termination
  by (relation "measure (\<lambda>(ps, targetIndex, i, prevPoint, cv). targetIndex - i)") auto

declare redraw.simps [simp del]

text \<open>
  \<^verbatim>\<open>seek\<close>, for a progress that is a number (not NaN). The progress is clamped to
  \<open>[0, 1]\<close>, so the product with the number of strokes, rounded to a double, is finite
  and not negative, and the target index is a natural number.
\<close>

definition seek :: "real \<Rightarrow> player \<Rightarrow> exn + bool \<times> player" where
  "seek progress s =
     (case playerSession s of
        None \<Rightarrow> Inr (False, s)
      | Some sess \<Rightarrow>
         (let progress1 = max 0 (min 1 progress);
              targetIndex = nat \<lfloor>round_double (progress1 * real (length (strokes sess)))\<rfloor>
          in case redraw (strokes sess) targetIndex 0 None (clearCanvas (canvas s)) of
               Inl e \<Rightarrow> Inl e
             | Inr cv \<Rightarrow>
                 Inr (True, notifyStateChange ''seeked''
                              (s\<lparr>canvas := cv, currentStrokeIndex := targetIndex\<rparr>))))"

definition setSpeed :: "real \<Rightarrow> player \<Rightarrow> player" where
  "setSpeed sp s = s\<lparr>speed := max 1 (min 200 sp)\<rparr>"


definition setOnStateChange :: "bool \<Rightarrow> player \<Rightarrow> player" where
  "setOnStateChange registered s = s\<lparr>onStateChangeCallback := registered\<rparr>"

definition setOnComplete :: "bool \<Rightarrow> player \<Rightarrow> player" where
  "setOnComplete registered s = s\<lparr>onCompleteCallback := registered\<rparr>"

definition player_destroy :: "player \<Rightarrow> player" where
  "player_destroy s =
     (snd (stop s))\<lparr>canvas := None, onStateChangeCallback := False,
                    onCompleteCallback := False, playerSession := None\<rparr>"

text \<open>The states the Player can reach from its creation through its public operations and
  through the ticks of a requested animation frame.\<close>

inductive player_reachable :: "player \<Rightarrow> bool" where
  pr_create: "player_reachable (createPlayer sp lp)"
| pr_load: "player_reachable s \<Longrightarrow> player_reachable (snd (loadSession sess s))"
| pr_play: "player_reachable s \<Longrightarrow> player_reachable (snd (play now s))"
| pr_pause: "player_reachable s \<Longrightarrow> player_reachable (snd (pause s))"
| pr_resume: "player_reachable s \<Longrightarrow> player_reachable (snd (resume now s))"
| pr_stop: "player_reachable s \<Longrightarrow> player_reachable (snd (stop s))"
| pr_seek: "player_reachable s \<Longrightarrow> seek progress s = Inr (b, s') \<Longrightarrow> player_reachable s'"
| pr_speed: "player_reachable s \<Longrightarrow> player_reachable (setSpeed sp s)"
| pr_tick: "player_reachable s \<Longrightarrow> frameRequested s \<Longrightarrow> player_reachable (animationLoop timestamp now s)"
| pr_onchange: "player_reachable s \<Longrightarrow> player_reachable (setOnStateChange c s)"
| pr_oncomplete: "player_reachable s \<Longrightarrow> player_reachable (setOnComplete c s)"
| pr_destroy: "player_reachable s \<Longrightarrow> player_reachable (player_destroy s)"

section \<open>Reference notions for the statements\<close>

text \<open>
  The field-aliasing table in the words of the specification: of the listed property
  names, the first one that the payload has.
\<close>

fun first_present :: "jsval \<Rightarrow> string list \<Rightarrow> jsval option" where
  "first_present raw [] = None"
| "first_present raw (k # ks) =
     (if get_prop raw k \<noteq> JUndefined then Some (get_prop raw k) else first_present raw ks)"

definition spec_size :: "jsval \<Rightarrow> jsval" where
  "spec_size raw =
     (case first_present raw [''size'', ''width'', ''thickness''] of Some v \<Rightarrow> v | None \<Rightarrow> JNum (Fin 5))"

text \<open>
  A payload object with numeric fields: the coordinates are numbers, the previous
  position and the brush numbers are numbers other than zero (doubles, when finite), the
  colours are strings that are not empty. Only properties that are present are
  constrained.
\<close>

fun nonzero_number :: "jsnum \<Rightarrow> bool" where
  "nonzero_number (Fin r) = (r \<noteq> 0 \<and> is_double r)"
| "nonzero_number PInf = True"
| "nonzero_number NInf = True"
| "nonzero_number NaN = False"

definition is_num :: "jsval option \<Rightarrow> bool" where
  "is_num v = (case v of None \<Rightarrow> True | Some (JNum n) \<Rightarrow> n \<noteq> NaN | Some w \<Rightarrow> False)"

definition is_nonzero_num :: "jsval option \<Rightarrow> bool" where
  "is_nonzero_num v =
     (case v of None \<Rightarrow> True | Some (JNum n) \<Rightarrow> nonzero_number n | Some w \<Rightarrow> False)"

definition is_nonempty_str :: "jsval option \<Rightarrow> bool" where
  "is_nonempty_str v = (case v of None \<Rightarrow> True | Some (JStr s) \<Rightarrow> s \<noteq> [] | Some w \<Rightarrow> False)"

definition numeric_payload :: "(string \<times> jsval) list \<Rightarrow> bool" where
  "numeric_payload kvs =
     (list_all (\<lambda>k. is_num (map_of kvs k)) [''x'', ''y''] \<and>
      list_all (\<lambda>k. is_nonzero_num (map_of kvs k))
        [''prevX'', ''prevY'', ''px'', ''py'', ''size'', ''width'', ''thickness'',
         ''opacity'', ''alpha'', ''a''] \<and>
      list_all (\<lambda>k. is_nonempty_str (map_of kvs k)) [''color'', ''c''])"

text \<open>
  The text of a frame: the transport tag 4, the message type 2, an optional namespace
  \<^verbatim>\<open>/name,\<close> and the JSON text of the payload. A namespace has no comma in it. Such a
  frame carries no acknowledgement id.
\<close>

definition message_frame :: "string \<Rightarrow> string" where
  "message_frame json = ''42'' @ json"

definition frame_text :: "string option \<Rightarrow> string \<Rightarrow> string" where
  "frame_text ns json =
     message_frame ((case ns of None \<Rightarrow> [] | Some name \<Rightarrow> CHR ''/'' # name @ '','') @ json)"

definition valid_namespace :: "string option \<Rightarrow> bool" where
  "valid_namespace ns = (case ns of None \<Rightarrow> True | Some name \<Rightarrow> CHR '','' \<notin> set name)"

text \<open>
  A well-formed draw frame: its JSON text starts with a bracket and parses to an array
  of a whitelisted event name and, possibly, arguments, the first of which is the
  payload; the payload's \<^verbatim>\<open>opacity\<close>, \<^verbatim>\<open>alpha\<close> and \<^verbatim>\<open>a\<close>, where present, can be converted to
  primitives (as every number, string, boolean and null can).
\<close>

fun drawing_json :: "jsval option \<Rightarrow> bool" where
  "drawing_json (Some (JArr (JStr ev # args))) =
     (ev \<in> set DRAWING_EVENTS \<and>
      list_all (\<lambda>k. \<not> toPrimitive_throws
                       (get_prop (case args of [] \<Rightarrow> JUndefined | payload # others \<Rightarrow> payload) k))
        [''opacity'', ''alpha'', ''a''])"
| "drawing_json v = False"

definition well_formed_draw ::
  "(string \<Rightarrow> jsval option) \<Rightarrow> string option \<Rightarrow> string \<Rightarrow> bool" where
  "well_formed_draw jp ns json =
     (valid_namespace ns \<and> startsWith json (CHR ''['') \<and> drawing_json (jp json))"

text \<open>The value of a present numeric field times 100, as a product of doubles.\<close>

definition scaled :: "jsval \<Rightarrow> jsval" where
  "scaled v = (case v of JNum n \<Rightarrow> JNum (dmul n (Fin 100)) | w \<Rightarrow> JNum NaN)"

definition or_default :: "jsval option \<Rightarrow> jsval \<Rightarrow> jsval" where
  "or_default v d = (case v of Some w \<Rightarrow> w | None \<Rightarrow> d)"

text \<open>
  The stroke point that conversion builds by design from an event name and a payload:
  the zeroed control marker for clear and undo, otherwise a line point in which a later
  alias overrides an earlier one (\<^verbatim>\<open>px\<close> over \<^verbatim>\<open>prevX\<close>; \<^verbatim>\<open>thickness\<close> over \<^verbatim>\<open>width\<close> over
  \<^verbatim>\<open>size\<close>; \<^verbatim>\<open>c\<close> over \<^verbatim>\<open>color\<close>; \<^verbatim>\<open>a\<close> over \<^verbatim>\<open>alpha\<close> over \<^verbatim>\<open>opacity\<close>).
\<close>

definition aliased_point :: "string \<Rightarrow> jsval \<Rightarrow> int \<Rightarrow> stroke_point" where
  "aliased_point ev raw now =
     (if ev = ''clear'' \<or> ev = ''undo'' then
        \<lparr>sp_type = ev, sp_x = JNum (Fin 0), sp_y = JNum (Fin 0),
         sp_prevX = JUndefined, sp_prevY = JUndefined,
         sp_size = JNum (Fin 0), sp_color = JStr ''#000000'', sp_opacity = JNum (Fin 0),
         sp_time = now, sp_action = Some ev\<rparr>
      else
        \<lparr>sp_type = ''line'',
         sp_x = or_default (first_present raw [''x'']) (JNum (Fin 0)),
         sp_y = or_default (first_present raw [''y'']) (JNum (Fin 0)),
         sp_prevX = or_default (first_present raw [''px'', ''prevX'']) JNull,
         sp_prevY = or_default (first_present raw [''py'', ''prevY'']) JNull,
         sp_size = or_default (first_present raw [''thickness'', ''width'', ''size'']) (JNum (Fin 5)),
         sp_color = or_default (first_present raw [''c'', ''color'']) (JStr ''#000000''),
         sp_opacity = (case first_present raw [''a'', ''alpha'', ''opacity''] of
                         Some v \<Rightarrow> scaled v
                       | None \<Rightarrow> JNum (Fin 100)),
         sp_time = now, sp_action = None\<rparr>)"

text \<open>
  The strokes \<open>ps\<close> rendered as a chain: a stroke with no predecessor is a dot at its
  position, of half its size as radius; a stroke with a predecessor is a segment from the
  predecessor's position to its own, of its size as width; either has the stroke's
  colour and its opacity divided by 100 as alpha.
\<close>

fun chained :: "point option \<Rightarrow> point list \<Rightarrow> drawop list" where
  "chained prevPoint [] = []"
| "chained None (p # ps) =
     Dot (pt_x p) (pt_y p) (round_double (pt_size p / 2)) (pt_color p)
       (round_double (pt_opacity p / 100)) # chained (Some p) ps"
| "chained (Some q) (p # ps) =
     Segment (pt_x q) (pt_y q) (pt_x p) (pt_y p) (pt_size p) (pt_color p)
       (round_double (pt_opacity p / 100)) # chained (Some p) ps"

text \<open>
  How many strokes a tick renders when it is to draw \<open>strokesToDraw\<close> strokes and
  \<open>remaining\<close> strokes are left: that many, or all that are left when fewer are left.
\<close>

definition strokes_in_tick :: "jsnum \<Rightarrow> nat \<Rightarrow> nat" where
  "strokes_in_tick strokesToDraw remaining =
     (case strokesToDraw of
        Fin r \<Rightarrow> min (nat \<lceil>r\<rceil>) remaining
      | PInf \<Rightarrow> remaining
      | NInf \<Rightarrow> 0
      | NaN \<Rightarrow> 0)"

section \<open>Example data\<close>

text \<open>
  JSON texts of drawing events, and what \<^verbatim>\<open>JSON.parse\<close> returns on them; on any other
  text the table below answers like a syntax error. The numbers 0.5 and 0.07 are the
  doubles nearest to them. For \<^verbatim>\<open>StringToNumber\<close> the examples need no value at all.
\<close>

definition draw_json :: string where
  "draw_json = ''[\"draw\",{\"x\":10,\"y\":20,\"px\":5,\"py\":5,\"size\":3,\"color\":\"#ff0000\",\"alpha\":0.5}]''"

definition line_json :: string where
  "line_json = ''[\"line\",{\"x\":1,\"y\":2}]''"

definition widths_json :: string where
  "widths_json = ''[\"draw\",{\"size\":3,\"width\":7}]''"

definition throwing_json :: string where
  "throwing_json = ''[\"draw\",{\"a\":{\"toString\":0}}]''"

definition clear_json :: string where
  "clear_json = ''[\"clear\",{\"x\":10}]''"

definition faint_json :: string where
  "faint_json = ''[\"draw\",{\"a\":0.07}]''"

definition zero_json :: string where
  "zero_json = ''[\"draw\",{\"x\":0,\"y\":0,\"size\":0,\"opacity\":0}]''"

definition example_JSON_parse :: "string \<Rightarrow> jsval option" where
  "example_JSON_parse s =
     (if s = draw_json
      then Some (JArr [JStr ''draw'',
                  JObj [(''x'', JNum (Fin 10)), (''y'', JNum (Fin 20)), (''px'', JNum (Fin 5)),
                        (''py'', JNum (Fin 5)), (''size'', JNum (Fin 3)),
                        (''color'', JStr ''#ff0000''), (''alpha'', JNum (Fin (1 / 2)))]])
      else if s = line_json
      then Some (JArr [JStr ''line'', JObj [(''x'', JNum (Fin 1)), (''y'', JNum (Fin 2))]])
      else if s = widths_json
      then Some (JArr [JStr ''draw'', JObj [(''size'', JNum (Fin 3)), (''width'', JNum (Fin 7))]])
      else if s = throwing_json
      then Some (JArr [JStr ''draw'', JObj [(''a'', JObj [(''toString'', JNum (Fin 0))])]])
      else if s = clear_json
      then Some (JArr [JStr ''clear'', JObj [(''x'', JNum (Fin 10))]])
      else if s = faint_json
      then Some (JArr [JStr ''draw'',
                  JObj [(''a'', JNum (Fin (1261007895663739 / 18014398509481984)))]])
      else if s = zero_json
      then Some (JArr [JStr ''draw'',
                  JObj [(''x'', JNum (Fin 0)), (''y'', JNum (Fin 0)), (''size'', JNum (Fin 0)),
                        (''opacity'', JNum (Fin 0))]])
      else None)"

definition example_toNumber :: "jsval \<Rightarrow> jsnum" where
  "example_toNumber v = NaN"

text \<open>A transport that accepts every frame and keeps what it was given, in order.\<close>

definition example_send :: "frame list \<Rightarrow> frame \<Rightarrow> exn + frame list" where
  "example_send w d = Inr (w @ [d])"

definition example_point :: "real \<Rightarrow> real \<Rightarrow> point" where
  "example_point x y = \<lparr>pt_x = x, pt_y = y, pt_size = 5, pt_color = ''#000000'',
                        pt_opacity = 100, pt_time = 0\<rparr>"

definition ten_points :: "point list" where
  "ten_points =
     [example_point 0 0, example_point 1 1, example_point 2 2, example_point 3 3,
      example_point 4 4, example_point 5 5, example_point 6 6, example_point 7 7,
      example_point 8 8, example_point 9 9]"

definition example_session :: "point list \<Rightarrow> point session" where
  "example_session ps = \<lparr>session_id = ''rec_1'', startTime = 0, endTime = 1, strokes = ps,
                          metadata = None\<rparr>"

text \<open>The double nearest to 0.7.\<close>

definition seven_tenths :: real where
  "seven_tenths = 3152519739159347 / 4503599627370496"

section \<open>Properties of the rounding to doubles\<close>

lemma pow2_powr: "pow2 e = 2 powr (of_int e)"
proof (cases "0 \<le> e")
  case True
  have "(2::real) powr (of_int e) = 2 powr real (nat e)" using True by simp
  also have "\<dots> = 2 ^ nat e" by (rule powr_realpow) simp
  finally show ?thesis using True by (simp add: pow2_def)
next
  case False
  have "(2::real) powr (of_int e) = 2 powr (- real (nat (- e)))" using False by simp
  also have "\<dots> = 1 / 2 powr real (nat (- e))" by (rule powr_minus_divide)
  also have "2 powr real (nat (- e)) = (2::real) ^ nat (- e)" by (rule powr_realpow) simp
  finally show ?thesis using False by (simp add: pow2_def)
qed

lemma pow2_pos: "0 < pow2 e"
  by (simp add: pow2_powr)

lemma pow2_mono: "a \<le> b \<Longrightarrow> pow2 a \<le> pow2 b"
  by (simp add: pow2_powr powr_mono)


lemma pow2_nat: "pow2 (int n) = 2 ^ n"
  by (simp add: pow2_def)

lemma binade_lower: "lo \<le> hi \<Longrightarrow> lo \<le> binade k lo hi a"
proof (induction k arbitrary: lo hi)
  case 0
  then show ?case by simp
next
  case (Suc k)
  have m: "lo \<le> (lo + hi) div 2" "(lo + hi) div 2 \<le> hi"
    using Suc.prems by simp_all
  show ?case
  proof (cases "pow2 ((lo + hi) div 2) \<le> a")
    case True
    with Suc.IH [OF m(2)] m(1) show ?thesis by (simp add: Let_def)
  next
    case False
    with Suc.IH [OF m(1)] show ?thesis by (simp add: Let_def)
  qed
qed

lemma binade_below: "a < pow2 E \<Longrightarrow> lo < E \<Longrightarrow> binade k lo hi a < E"
proof (induction k arbitrary: lo hi)
  case 0
  then show ?case by simp
next
  case (Suc k)
  show ?case
  proof (cases "pow2 ((lo + hi) div 2) \<le> a")
    case True
    have "(lo + hi) div 2 < E"
    proof (rule ccontr)
      assume "\<not> (lo + hi) div 2 < E"
      then have "pow2 E \<le> pow2 ((lo + hi) div 2)" by (simp add: pow2_mono)
      with True Suc.prems(1) show False by simp
    qed
    with Suc.IH [OF Suc.prems(1), of "(lo + hi) div 2" hi] True show ?thesis
      by (simp add: Let_def)
  next
    case False
    with Suc.IH [OF Suc.prems(1) Suc.prems(2), of "(lo + hi) div 2"] show ?thesis
      by (simp add: Let_def)
  qed
qed

lemma binade_pow2_le: "pow2 lo \<le> a \<Longrightarrow> pow2 (binade k lo hi a) \<le> a"
  by (induction k arbitrary: lo hi) (simp_all add: Let_def)

lemma exponent_lower: "- 1022 \<le> exponent a"
  unfolding exponent_def by (rule binade_lower) simp

lemma exponent_below: "a < pow2 E \<Longrightarrow> - 1022 < E \<Longrightarrow> exponent a < E"
  unfolding exponent_def by (rule binade_below)

lemma exponent_pow2_le: "pow2 (- 1022) \<le> a \<Longrightarrow> pow2 (exponent a) \<le> a"
  unfolding exponent_def by (rule binade_pow2_le)

lemma nearest_even_of_int: "nearest_even (of_int k) = k"
  by (simp add: nearest_even_def)

lemma nearest_even_le: "y \<le> of_int K \<Longrightarrow> nearest_even y \<le> K"
proof -
  assume a: "y \<le> of_int K"
  then have f: "\<lfloor>y\<rfloor> \<le> K" by (simp add: floor_le_iff)
  show ?thesis
  proof (cases "\<lfloor>y\<rfloor> = K")
    case True
    with a have "y = of_int K" using of_int_floor_le [of y] by simp
    then show ?thesis by (simp add: nearest_even_of_int)
  next
    case False
    with f have "\<lfloor>y\<rfloor> + 1 \<le> K" by simp
    with f show ?thesis by (simp add: nearest_even_def Let_def)
  qed
qed

lemma nearest_even_ge: "of_int K \<le> y \<Longrightarrow> K \<le> nearest_even y"
proof -
  assume "of_int K \<le> y"
  then have "K \<le> \<lfloor>y\<rfloor>" by (simp add: le_floor_iff)
  then show ?thesis by (simp add: nearest_even_def Let_def)
qed







text \<open>A number of at least the smallest positive double in magnitude does not round to
  zero, and a double other than zero is such a number.\<close>

lemma round_double_nonzero:
  assumes "pow2 (- 1074) \<le> \<bar>x\<bar>"
  shows "round_double x \<noteq> 0"
proof -
  let ?e = "exponent \<bar>x\<bar>"
  let ?u = "pow2 (?e - 52)"
  have upos: "0 < ?u" by (rule pow2_pos)
  have "?u \<le> \<bar>x\<bar>"
  proof (cases "pow2 (- 1022) \<le> \<bar>x\<bar>")
    case True
    then have "pow2 ?e \<le> \<bar>x\<bar>" by (rule exponent_pow2_le)
    moreover have "?u \<le> pow2 ?e" by (rule pow2_mono) simp
    ultimately show ?thesis by simp
  next
    case False
    then have "\<bar>x\<bar> < pow2 (- 1022)" by simp
    then have "?e < - 1021"
      using exponent_below [of "\<bar>x\<bar>" "- 1021"] pow2_mono [of "- 1022" "- 1021"] by simp
    with exponent_lower [of "\<bar>x\<bar>"] have "?e = - 1022" by simp
    with assms show ?thesis by simp
  qed
  then have "1 \<le> \<bar>x / ?u\<bar>" using upos by (simp add: le_divide_eq)
  then have "of_int 1 \<le> x / ?u \<or> x / ?u \<le> of_int (- 1)" by (auto simp: abs_if split: if_splits)
  then have "nearest_even (x / ?u) \<noteq> 0"
    using nearest_even_ge [of 1 "x / ?u"] nearest_even_le [of "x / ?u" "- 1"] by auto
  then show ?thesis using upos by (simp add: round_double_def Let_def)
qed

lemma double_magnitude:
  assumes "is_double r" and "r \<noteq> 0"
  shows "pow2 (- 1074) \<le> \<bar>r\<bar>"
proof -
  let ?u = "pow2 (exponent \<bar>r\<bar> - 52)"
  have upos: "0 < ?u" by (rule pow2_pos)
  from assms(1) have r: "r = of_int (nearest_even (r / ?u)) * ?u"
    by (simp add: is_double_def round_double_def Let_def)
  with assms(2) have "nearest_even (r / ?u) \<noteq> 0" by auto
  then have "1 \<le> \<bar>nearest_even (r / ?u)\<bar>" by simp
  then have "(1::real) \<le> \<bar>of_int (nearest_even (r / ?u))\<bar>"
    by (metis of_int_1 of_int_abs of_int_le_iff)
  then have "?u \<le> \<bar>of_int (nearest_even (r / ?u))\<bar> * ?u"
    using upos by simp
  also have "\<dots> = \<bar>r\<bar>" using upos by (subst (2) r) (simp add: abs_mult)
  finally have "?u \<le> \<bar>r\<bar>" .
  moreover have "pow2 (- 1074) \<le> ?u"
    using exponent_lower [of "\<bar>r\<bar>"] by (intro pow2_mono) simp
  ultimately show ?thesis by simp
qed

lemma dmul_100_nonzero:
  assumes "nonzero_number n"
  shows "dmul n (Fin 100) \<noteq> Fin 0 \<and> dmul n (Fin 100) \<noteq> NaN"
proof (cases n)
  case (Fin r)
  with assms have r: "r \<noteq> 0" "is_double r" by simp_all
  from double_magnitude [OF r(2) r(1)] have "pow2 (- 1074) \<le> \<bar>r * 100\<bar>"
    by (simp add: abs_mult)
  then have "round_double (r * 100) \<noteq> 0" by (rule round_double_nonzero)
  then show ?thesis using Fin by (simp add: to_double_def Let_def)
qed (use assms in simp_all)

subsection \<open>Evaluating the rounding on examples\<close>

lemmas double_eval =
  exponent_def pow2_def nearest_even_def round_double_def to_double_def Let_def
  eval_nat_numeral

lemma half_times_100: "dmul (Fin (1 / 2)) (Fin 100) = Fin 50"
  by (simp add: double_eval)

lemma faint_times_100:
  "dmul (Fin (1261007895663739 / 18014398509481984)) (Fin 100) =
     Fin (7881299347898369 / 1125899906842624)"
  by (simp add: double_eval)

lemma is_double_examples: "is_double 5" "is_double 3" "is_double (1 / 2)"
  by (simp_all add: is_double_def double_eval)

section \<open>Evaluating the decoder on the examples\<close>

lemmas decode_defs =
  parse_def parseSocketPacket_def parseSocketPacket_try_def is_digit_def digit_value_def
  PACKET_MESSAGE_def MESSAGE_EVENT_def DRAWING_EVENTS_def isDrawingEvent_def
  extractDrawingData_def normalizeDrawingData_def assign_if_defined_def assign_opacity_def
  js_times100_def js_or_def example_JSON_parse_def message_frame_def
  draw_json_def line_json_def widths_json_def throwing_json_def clear_json_def
  faint_json_def zero_json_def

lemma parse_example_draw:
  "parse example_JSON_parse tn now
     (message_frame draw_json)
   = Inr (Some \<lparr>ev_type = ''draw'',
                ev_data = \<lparr>n_type = ''draw'', n_x = JNum (Fin 10), n_y = JNum (Fin 20),
                           n_size = JNum (Fin 3),
                           n_color = JStr ''#ff0000'', n_opacity = JNum (Fin 50),
                           n_prevX = JNum (Fin 5), n_prevY = JNum (Fin 5), n_action = None\<rparr>,
                ev_timestamp = now\<rparr>)"
  by (simp add: decode_defs half_times_100 del: dmul.simps)

lemma parse_example_line:
  "parse example_JSON_parse tn now (message_frame line_json)
   = Inr (Some \<lparr>ev_type = ''line'',
                ev_data = \<lparr>n_type = ''line'', n_x = JNum (Fin 1), n_y = JNum (Fin 2),
                           n_size = JNum (Fin 5),
                           n_color = JStr ''#000000'', n_opacity = JNum (Fin 100),
                           n_prevX = JNull, n_prevY = JNull, n_action = None\<rparr>,
                ev_timestamp = now\<rparr>)"
  by (simp add: decode_defs)

lemma parse_example_widths:
  "parse example_JSON_parse tn now (message_frame widths_json)
   = Inr (Some \<lparr>ev_type = ''draw'',
                ev_data = \<lparr>n_type = ''draw'', n_x = JNum (Fin 0), n_y = JNum (Fin 0),
                           n_size = JNum (Fin 7),
                           n_color = JStr ''#000000'', n_opacity = JNum (Fin 100),
                           n_prevX = JNull, n_prevY = JNull, n_action = None\<rparr>,
                ev_timestamp = now\<rparr>)"
  by (simp add: decode_defs)

lemma parse_example_clear:
  "parse example_JSON_parse tn now (message_frame clear_json)
   = Inr (Some \<lparr>ev_type = ''clear'',
                ev_data = \<lparr>n_type = ''clear'', n_x = JNum (Fin 10), n_y = JNum (Fin 0),
                           n_size = JNum (Fin 5),
                           n_color = JStr ''#000000'', n_opacity = JNum (Fin 100),
                           n_prevX = JNull, n_prevY = JNull, n_action = Some ''clear''\<rparr>,
                ev_timestamp = now\<rparr>)"
  by (simp add: decode_defs)

lemma parse_example_faint:
  "parse example_JSON_parse tn now (message_frame faint_json)
   = Inr (Some \<lparr>ev_type = ''draw'',
                ev_data = \<lparr>n_type = ''draw'', n_x = JNum (Fin 0), n_y = JNum (Fin 0),
                           n_size = JNum (Fin 5),
                           n_color = JStr ''#000000'',
                           n_opacity = JNum (Fin (7881299347898369 / 1125899906842624)),
                           n_prevX = JNull, n_prevY = JNull, n_action = None\<rparr>,
                ev_timestamp = now\<rparr>)"
  by (simp add: decode_defs faint_times_100 del: dmul.simps)

lemma parse_example_throwing:
  "parse example_JSON_parse tn now (message_frame throwing_json) = Inl TypeError"
  by (simp add: decode_defs)

lemma parse_example_ping: "parse jp tn now ''2'' = Inr None"
  by (simp add: decode_defs)

text \<open>A frame with an acknowledgement id: the id is matched without its comma, the rest
  is not JSON, and nothing is decoded.\<close>

lemma parse_example_acknowledged:
  "parse example_JSON_parse tn now (message_frame (''12,'' @ draw_json)) = Inr None"
  by (simp add: decode_defs)

section \<open>Properties of the decoder\<close>

lemma indexOf_append:
  "c \<notin> set xs \<Longrightarrow> indexOf (xs @ c # ys) c = Some (length xs)"
  by (induction xs) auto

lemma parseSocketPacket_frame_text:
  assumes "valid_namespace ns" and "startsWith json (CHR ''['')" and "jp json = Some v"
  shows "parseSocketPacket jp (frame_text ns json) =
           Some \<lparr>pk_type = MESSAGE_EVENT,
                 pk_namespace = (case ns of None \<Rightarrow> ''/'' | Some name \<Rightarrow> CHR ''/'' # name),
                 pk_data = v, pk_id = None\<rparr>"
proof -
  from assms(2) obtain cs where json: "json = CHR ''['' # cs" by (cases json) auto
  have nd: "leading_digit json = None" "\<not> startsWith json (CHR ''/'')"
    "takeWhile is_digit json = []"
    using json by (simp_all add: is_digit_def)
  show ?thesis
  proof (cases ns)
    case None
    then show ?thesis
      using nd assms(3)
      by (simp add: parseSocketPacket_def parseSocketPacket_try_def message_frame_def
                    frame_text_def is_digit_def digit_value_def PACKET_MESSAGE_def
                    MESSAGE_EVENT_def)
  next
    case (Some name)
    with assms(1) have "CHR '','' \<notin> set (CHR ''/'' # name)"
      by (simp add: valid_namespace_def)
    from indexOf_append [OF this, of json]
    have i: "indexOf (CHR ''/'' # name @ CHR '','' # json) (CHR '','') = Some (Suc (length name))"
      by simp
    have p: "parseSocketPacket_try jp (CHR ''4'' # CHR ''2'' # CHR ''/'' # name @ CHR '','' # json) =
               Inr (Some \<lparr>pk_type = MESSAGE_EVENT, pk_namespace = CHR ''/'' # name,
                          pk_data = v, pk_id = None\<rparr>)"
      unfolding parseSocketPacket_try_def
      using nd assms(3) i
      by (simp add: is_digit_def digit_value_def PACKET_MESSAGE_def MESSAGE_EVENT_def
               del: indexOf.simps)
    show ?thesis
      using Some p by (simp add: parseSocketPacket_def frame_text_def message_frame_def)
  qed
qed

lemma assign_if_defined_x:
  "assign_if_defined raw k (\<lambda>v n. n\<lparr>n_x := v\<rparr>) n =
     n\<lparr>n_x := (if get_prop raw k \<noteq> JUndefined then get_prop raw k else n_x n)\<rparr>"
  by (simp add: assign_if_defined_def)

lemma assign_if_defined_y:
  "assign_if_defined raw k (\<lambda>v n. n\<lparr>n_y := v\<rparr>) n =
     n\<lparr>n_y := (if get_prop raw k \<noteq> JUndefined then get_prop raw k else n_y n)\<rparr>"
  by (simp add: assign_if_defined_def)

lemma assign_if_defined_prevX:
  "assign_if_defined raw k (\<lambda>v n. n\<lparr>n_prevX := v\<rparr>) n =
     n\<lparr>n_prevX := (if get_prop raw k \<noteq> JUndefined then get_prop raw k else n_prevX n)\<rparr>"
  by (simp add: assign_if_defined_def)

lemma assign_if_defined_prevY:
  "assign_if_defined raw k (\<lambda>v n. n\<lparr>n_prevY := v\<rparr>) n =
     n\<lparr>n_prevY := (if get_prop raw k \<noteq> JUndefined then get_prop raw k else n_prevY n)\<rparr>"
  by (simp add: assign_if_defined_def)

lemma assign_if_defined_size:
  "assign_if_defined raw k (\<lambda>v n. n\<lparr>n_size := v\<rparr>) n =
     n\<lparr>n_size := (if get_prop raw k \<noteq> JUndefined then get_prop raw k else n_size n)\<rparr>"
  by (simp add: assign_if_defined_def)

lemma assign_if_defined_color:
  "assign_if_defined raw k (\<lambda>v n. n\<lparr>n_color := v\<rparr>) n =
     n\<lparr>n_color := (if get_prop raw k \<noteq> JUndefined then get_prop raw k else n_color n)\<rparr>"
  by (simp add: assign_if_defined_def)

lemmas assign_if_defined_fields =
  assign_if_defined_x assign_if_defined_y assign_if_defined_prevX assign_if_defined_prevY
  assign_if_defined_size assign_if_defined_color

text \<open>A field that is absent or a number: the product does not throw.\<close>

lemma assign_opacity_numeric:
  assumes "get_prop raw k = JUndefined \<or> (\<exists>r. get_prop raw k = JNum r)"
  shows "assign_opacity tn raw k n =
           Inr (n\<lparr>n_opacity := (if get_prop raw k \<noteq> JUndefined then scaled (get_prop raw k)
                                  else n_opacity n)\<rparr>)"
  using assms by (auto simp: assign_opacity_def js_times100_def scaled_def)

lemma numeric_payload_fields:
  assumes "numeric_payload kvs"
  shows "k \<in> {''x'', ''y''} \<Longrightarrow>
           get_prop (JObj kvs) k = JUndefined \<or> (\<exists>r. get_prop (JObj kvs) k = JNum r \<and> r \<noteq> NaN)"
    and "k \<in> {''prevX'', ''prevY'', ''px'', ''py'', ''size'', ''width'', ''thickness'',
              ''opacity'', ''alpha'', ''a''} \<Longrightarrow>
           get_prop (JObj kvs) k = JUndefined \<or>
           (\<exists>r. get_prop (JObj kvs) k = JNum r \<and> nonzero_number r)"
    and "k \<in> {''color'', ''c''} \<Longrightarrow>
           get_prop (JObj kvs) k = JUndefined \<or> (\<exists>s. get_prop (JObj kvs) k = JStr s \<and> s \<noteq> [])"
proof -
  have a: "is_num (map_of kvs k) \<Longrightarrow>
           get_prop (JObj kvs) k = JUndefined \<or> (\<exists>r. get_prop (JObj kvs) k = JNum r \<and> r \<noteq> NaN)" for k
    by (auto simp: is_num_def split: option.splits jsval.splits)
  have b: "is_nonzero_num (map_of kvs k) \<Longrightarrow>
           get_prop (JObj kvs) k = JUndefined \<or>
           (\<exists>r. get_prop (JObj kvs) k = JNum r \<and> nonzero_number r)" for k
    by (auto simp: is_nonzero_num_def split: option.splits jsval.splits)
  have c: "is_nonempty_str (map_of kvs k) \<Longrightarrow>
           get_prop (JObj kvs) k = JUndefined \<or> (\<exists>s. get_prop (JObj kvs) k = JStr s \<and> s \<noteq> [])" for k
    by (auto simp: is_nonempty_str_def split: option.splits jsval.splits)
  show "k \<in> {''x'', ''y''} \<Longrightarrow>
           get_prop (JObj kvs) k = JUndefined \<or> (\<exists>r. get_prop (JObj kvs) k = JNum r \<and> r \<noteq> NaN)"
    using assms a [of k] unfolding numeric_payload_def by (elim conjE) (simp, blast)
  show "k \<in> {''prevX'', ''prevY'', ''px'', ''py'', ''size'', ''width'', ''thickness'',
              ''opacity'', ''alpha'', ''a''} \<Longrightarrow>
           get_prop (JObj kvs) k = JUndefined \<or>
           (\<exists>r. get_prop (JObj kvs) k = JNum r \<and> nonzero_number r)"
    using assms b [of k] unfolding numeric_payload_def by (elim conjE) (simp, blast)
  show "k \<in> {''color'', ''c''} \<Longrightarrow>
           get_prop (JObj kvs) k = JUndefined \<or> (\<exists>s. get_prop (JObj kvs) k = JStr s \<and> s \<noteq> [])"
    using assms c [of k] unfolding numeric_payload_def by (elim conjE) (simp, blast)
qed

lemma normalize_numeric:
  assumes o1: "get_prop raw ''opacity'' = JUndefined \<or> (\<exists>r. get_prop raw ''opacity'' = JNum r)"
      and o2: "get_prop raw ''alpha'' = JUndefined \<or> (\<exists>r. get_prop raw ''alpha'' = JNum r)"
      and o3: "get_prop raw ''a'' = JUndefined \<or> (\<exists>r. get_prop raw ''a'' = JNum r)"
  shows "normalizeDrawingData tn ev raw =
     Inr \<lparr>n_type = ev,
          n_x = (if get_prop raw ''x'' \<noteq> JUndefined then get_prop raw ''x'' else JNum (Fin 0)),
          n_y = (if get_prop raw ''y'' \<noteq> JUndefined then get_prop raw ''y'' else JNum (Fin 0)),
          n_size = (if get_prop raw ''thickness'' \<noteq> JUndefined then get_prop raw ''thickness''
                    else if get_prop raw ''width'' \<noteq> JUndefined then get_prop raw ''width''
                    else if get_prop raw ''size'' \<noteq> JUndefined then get_prop raw ''size''
                    else JNum (Fin 5)),
          n_color = (if get_prop raw ''c'' \<noteq> JUndefined then get_prop raw ''c''
                     else if get_prop raw ''color'' \<noteq> JUndefined then get_prop raw ''color''
                     else JStr ''#000000''),
          n_opacity = (if get_prop raw ''a'' \<noteq> JUndefined then scaled (get_prop raw ''a'')
                       else if get_prop raw ''alpha'' \<noteq> JUndefined
                         then scaled (get_prop raw ''alpha'')
                       else if get_prop raw ''opacity'' \<noteq> JUndefined
                         then scaled (get_prop raw ''opacity'')
                       else JNum (Fin 100)),
          n_prevX = (if get_prop raw ''px'' \<noteq> JUndefined then get_prop raw ''px''
                     else if get_prop raw ''prevX'' \<noteq> JUndefined then get_prop raw ''prevX''
                     else JNull),
          n_prevY = (if get_prop raw ''py'' \<noteq> JUndefined then get_prop raw ''py''
                     else if get_prop raw ''prevY'' \<noteq> JUndefined then get_prop raw ''prevY''
                     else JNull),
          n_action = (if ev = ''clear'' \<or> ev = ''undo'' then Some ev else None)\<rparr>"
  unfolding normalizeDrawingData_def Let_def assign_if_defined_fields
    assign_opacity_numeric [OF o1] assign_opacity_numeric [OF o2] assign_opacity_numeric [OF o3]
  by (cases "ev = ''clear'' \<or> ev = ''undo''") (simp_all split del: if_split cong: if_cong)

text \<open>Conversion of the normalized data of a numeric payload, field by field.\<close>

lemma nonzero_number_truthy: "nonzero_number n \<Longrightarrow> n \<noteq> Fin 0 \<and> n \<noteq> NaN"
  by (cases n) simp_all

lemma converted_coordinate:
  assumes "g = JUndefined \<or> (\<exists>r. g = JNum r \<and> r \<noteq> NaN)"
  shows "js_or (if g \<noteq> JUndefined then g else JNum (Fin 0)) (JNum (Fin 0)) =
         (if g \<noteq> JUndefined then g else JNum (Fin 0))"
  using assms by (auto simp: js_or_def)

lemma converted_previous:
  assumes "g1 = JUndefined \<or> (\<exists>r. g1 = JNum r \<and> nonzero_number r)"
      and "g2 = JUndefined \<or> (\<exists>r. g2 = JNum r \<and> nonzero_number r)"
  shows "js_or (js_or (if g1 \<noteq> JUndefined then g1 else if g2 \<noteq> JUndefined then g2 else JNull)
                  JUndefined) JNull =
         (if g1 \<noteq> JUndefined then g1 else if g2 \<noteq> JUndefined then g2 else JNull)"
  using assms by (auto simp: js_or_def dest: nonzero_number_truthy)

lemma converted_size:
  assumes "g1 = JUndefined \<or> (\<exists>r. g1 = JNum r \<and> nonzero_number r)"
      and "g2 = JUndefined \<or> (\<exists>r. g2 = JNum r \<and> nonzero_number r)"
      and "g3 = JUndefined \<or> (\<exists>r. g3 = JNum r \<and> nonzero_number r)"
  shows "js_or (if g1 \<noteq> JUndefined then g1 else if g2 \<noteq> JUndefined then g2
                else if g3 \<noteq> JUndefined then g3 else JNum (Fin 5)) (JNum (Fin 5)) =
         (if g1 \<noteq> JUndefined then g1 else if g2 \<noteq> JUndefined then g2
          else if g3 \<noteq> JUndefined then g3 else JNum (Fin 5))"
  using assms by (auto simp: js_or_def dest: nonzero_number_truthy)

lemma converted_color:
  assumes "g1 = JUndefined \<or> (\<exists>s. g1 = JStr s \<and> s \<noteq> [])"
      and "g2 = JUndefined \<or> (\<exists>s. g2 = JStr s \<and> s \<noteq> [])"
  shows "js_or (if g1 \<noteq> JUndefined then g1 else if g2 \<noteq> JUndefined then g2
                else JStr ''#000000'') (JStr ''#000000'') =
         (if g1 \<noteq> JUndefined then g1 else if g2 \<noteq> JUndefined then g2 else JStr ''#000000'')"
  using assms by (auto simp: js_or_def)

lemma scaled_truthy:
  "nonzero_number r \<Longrightarrow> js_or (scaled (JNum r)) d = scaled (JNum r)"
  using dmul_100_nonzero [of r] by (simp add: js_or_def scaled_def)

lemma converted_opacity:
  assumes "g1 = JUndefined \<or> (\<exists>r. g1 = JNum r \<and> nonzero_number r)"
      and "g2 = JUndefined \<or> (\<exists>r. g2 = JNum r \<and> nonzero_number r)"
      and "g3 = JUndefined \<or> (\<exists>r. g3 = JNum r \<and> nonzero_number r)"
  shows "js_or (if g1 \<noteq> JUndefined then scaled g1 else if g2 \<noteq> JUndefined then scaled g2
                else if g3 \<noteq> JUndefined then scaled g3 else JNum (Fin 100)) (JNum (Fin 100)) =
         (if g1 \<noteq> JUndefined then scaled g1 else if g2 \<noteq> JUndefined then scaled g2
          else if g3 \<noteq> JUndefined then scaled g3 else JNum (Fin 100))"
  using assms by (auto simp: scaled_truthy) (simp_all add: js_or_def)

lemma first_present_chain:
  "or_default (first_present raw [k1]) d =
     (if get_prop raw k1 \<noteq> JUndefined then get_prop raw k1 else d)"
  "or_default (first_present raw [k1, k2]) d =
     (if get_prop raw k1 \<noteq> JUndefined then get_prop raw k1
      else if get_prop raw k2 \<noteq> JUndefined then get_prop raw k2 else d)"
  "or_default (first_present raw [k1, k2, k3]) d =
     (if get_prop raw k1 \<noteq> JUndefined then get_prop raw k1
      else if get_prop raw k2 \<noteq> JUndefined then get_prop raw k2
      else if get_prop raw k3 \<noteq> JUndefined then get_prop raw k3 else d)"
  "(case first_present raw [k1, k2, k3] of Some v \<Rightarrow> scaled v | None \<Rightarrow> d) =
     (if get_prop raw k1 \<noteq> JUndefined then scaled (get_prop raw k1)
      else if get_prop raw k2 \<noteq> JUndefined then scaled (get_prop raw k2)
      else if get_prop raw k3 \<noteq> JUndefined then scaled (get_prop raw k3) else d)"
  by (simp_all add: or_default_def)

lemma decode_frame_text:
  assumes ev: "ev \<in> set DRAWING_EVENTS"
      and ns: "valid_namespace ns"
      and json: "startsWith json (CHR ''['')"
      and jp: "jp json = Some (JArr (JStr ev # JObj kvs # others))"
      and num: "numeric_payload kvs"
  shows "decodeToStrokePoint jp tn now (frame_text ns json) =
           Inr (Some (aliased_point ev (JObj kvs) now))"
proof -
  let ?raw = "JObj kvs"
  let ?pk = "\<lparr>pk_type = MESSAGE_EVENT,
             pk_namespace = (case ns of None \<Rightarrow> ''/'' | Some name \<Rightarrow> CHR ''/'' # name),
             pk_data = JArr (JStr ev # ?raw # others), pk_id = None\<rparr>"
  note nx = numeric_payload_fields(1) [OF num]
  note nz = numeric_payload_fields(2) [OF num]
  note nc = numeric_payload_fields(3) [OF num]
  have pk: "parseSocketPacket jp (frame_text ns json) = Some ?pk"
    using ns json jp by (rule parseSocketPacket_frame_text)
  have o: "get_prop ?raw k = JUndefined \<or> (\<exists>r. get_prop ?raw k = JNum r)"
    if "k \<in> {''opacity'', ''alpha'', ''a''}" for k
    using nz [of k] that by blast
  have norm: "normalizeDrawingData tn ev ?raw = Inr
     \<lparr>n_type = ev,
          n_x = (if get_prop ?raw ''x'' \<noteq> JUndefined then get_prop ?raw ''x'' else JNum (Fin 0)),
          n_y = (if get_prop ?raw ''y'' \<noteq> JUndefined then get_prop ?raw ''y'' else JNum (Fin 0)),
          n_size = (if get_prop ?raw ''thickness'' \<noteq> JUndefined then get_prop ?raw ''thickness''
                    else if get_prop ?raw ''width'' \<noteq> JUndefined then get_prop ?raw ''width''
                    else if get_prop ?raw ''size'' \<noteq> JUndefined then get_prop ?raw ''size''
                    else JNum (Fin 5)),
          n_color = (if get_prop ?raw ''c'' \<noteq> JUndefined then get_prop ?raw ''c''
                     else if get_prop ?raw ''color'' \<noteq> JUndefined then get_prop ?raw ''color''
                     else JStr ''#000000''),
          n_opacity = (if get_prop ?raw ''a'' \<noteq> JUndefined then scaled (get_prop ?raw ''a'')
                       else if get_prop ?raw ''alpha'' \<noteq> JUndefined
                         then scaled (get_prop ?raw ''alpha'')
                       else if get_prop ?raw ''opacity'' \<noteq> JUndefined
                         then scaled (get_prop ?raw ''opacity'')
                       else JNum (Fin 100)),
          n_prevX = (if get_prop ?raw ''px'' \<noteq> JUndefined then get_prop ?raw ''px''
                     else if get_prop ?raw ''prevX'' \<noteq> JUndefined then get_prop ?raw ''prevX''
                     else JNull),
          n_prevY = (if get_prop ?raw ''py'' \<noteq> JUndefined then get_prop ?raw ''py''
                     else if get_prop ?raw ''prevY'' \<noteq> JUndefined then get_prop ?raw ''prevY''
                     else JNull),
          n_action = (if ev = ''clear'' \<or> ev = ''undo'' then Some ev else None)\<rparr>"
    by (rule normalize_numeric) (rule o, simp)+
  have draw: "isDrawingEvent ?pk"
    using ev by (simp add: isDrawingEvent_def)
  have ed: "js_or (js_index (JArr (JStr ev # ?raw # others)) 1) (JObj []) = ?raw"
    by (simp add: js_or_def)
  have dec: "decodeToStrokePoint jp tn now (frame_text ns json) =
          Inr (convertToStrokePoint \<lparr>ev_type = ev,
                 ev_data = (case normalizeDrawingData tn ev ?raw of Inr n \<Rightarrow> n),
                 ev_timestamp = now\<rparr>)"
    unfolding decodeToStrokePoint_def parse_def pk extractDrawingData_def
    using draw ed norm by (simp del: get_prop.simps)
  show ?thesis
  proof (cases "ev = ''clear'' \<or> ev = ''undo''")
    case True
    then show ?thesis
      unfolding dec by (auto simp: convertToStrokePoint_def aliased_point_def)
  next
    case False
    have x: "get_prop ?raw ''x'' = JUndefined \<or> (\<exists>r. get_prop ?raw ''x'' = JNum r \<and> r \<noteq> NaN)"
      and y: "get_prop ?raw ''y'' = JUndefined \<or> (\<exists>r. get_prop ?raw ''y'' = JNum r \<and> r \<noteq> NaN)"
      by (rule nx, simp)+
    have z: "get_prop ?raw k = JUndefined \<or> (\<exists>r. get_prop ?raw k = JNum r \<and> nonzero_number r)"
      if "k \<in> {''prevX'', ''prevY'', ''px'', ''py'', ''size'', ''width'', ''thickness'',
              ''opacity'', ''alpha'', ''a''}" for k
      using nz [OF that] .
    have c: "get_prop ?raw k = JUndefined \<or> (\<exists>s. get_prop ?raw k = JStr s \<and> s \<noteq> [])"
      if "k \<in> {''color'', ''c''}" for k
      using nc [OF that] .
    show ?thesis
      unfolding dec norm
      using False
      by (simp del: get_prop.simps first_present.simps split del: if_split
               add: convertToStrokePoint_def aliased_point_def first_present_chain
                    converted_coordinate [OF x] converted_coordinate [OF y]
                    converted_previous [OF z z] converted_size [OF z z z]
                    converted_color [OF c c] converted_opacity [OF z z z])
  qed
qed

text \<open>
  Claim C1, as amended. For every whitelisted event name and every frame made of the
  tags 42, possibly a namespace, and a JSON text that parses to an array of the event
  name, a payload object with numeric fields (numbers other than zero for the previous
  position, the size and the opacity; non-empty colour strings) and possibly more
  arguments, decoding followed by conversion yields the point \<open>aliased_point\<close>: for clear
  and undo the zeroed control marker; otherwise a line point with \<^verbatim>\<open>x\<close> and \<^verbatim>\<open>y\<close> taken
  directly (0 when absent), \<^verbatim>\<open>prevX\<close> from \<^verbatim>\<open>px\<close> else \<^verbatim>\<open>prevX\<close> (else null), the size from
  \<^verbatim>\<open>thickness\<close> else \<^verbatim>\<open>width\<close> else \<^verbatim>\<open>size\<close> (else 5), the colour from \<^verbatim>\<open>c\<close> else \<^verbatim>\<open>color\<close>
  (else \<^verbatim>\<open>#000000\<close>), the opacity the product, as a double, of 100 and \<^verbatim>\<open>a\<close> else \<^verbatim>\<open>alpha\<close>
  else \<^verbatim>\<open>opacity\<close> (else 100).
\<close>
theorem decode_numeric_payload:
  assumes "ev \<in> set DRAWING_EVENTS"
      and "valid_namespace ns"
      and "startsWith json (CHR ''['')"
      and "jp json = Some (JArr (JStr ev # JObj kvs # others))"
      and "numeric_payload kvs"
  shows "decodeToStrokePoint jp tn now (frame_text ns json) =
           Inr (Some (aliased_point ev (JObj kvs) now))"
  using assms by (rule decode_frame_text)

theorem decode_numeric_payload_witness:
  "''draw'' \<in> set DRAWING_EVENTS \<and> valid_namespace (Some ''room'') \<and>
   startsWith draw_json (CHR ''['') \<and>
   example_JSON_parse draw_json =
     Some (JArr [JStr ''draw'',
             JObj [(''x'', JNum (Fin 10)), (''y'', JNum (Fin 20)), (''px'', JNum (Fin 5)),
                   (''py'', JNum (Fin 5)), (''size'', JNum (Fin 3)),
                   (''color'', JStr ''#ff0000''), (''alpha'', JNum (Fin (1 / 2)))]]) \<and>
   numeric_payload [(''x'', JNum (Fin 10)), (''y'', JNum (Fin 20)), (''px'', JNum (Fin 5)),
                    (''py'', JNum (Fin 5)), (''size'', JNum (Fin 3)),
                    (''color'', JStr ''#ff0000''), (''alpha'', JNum (Fin (1 / 2)))] \<and>
   frame_text (Some ''room'') draw_json =
     ''42/room,[\"draw\",{\"x\":10,\"y\":20,\"px\":5,\"py\":5,\"size\":3,\"color\":\"#ff0000\",\"alpha\":0.5}]'' \<and>
   decodeToStrokePoint example_JSON_parse example_toNumber 7 (frame_text (Some ''room'') draw_json) =
     Inr (Some \<lparr>sp_type = ''line'', sp_x = JNum (Fin 10), sp_y = JNum (Fin 20),
                sp_prevX = JNum (Fin 5), sp_prevY = JNum (Fin 5), sp_size = JNum (Fin 3),
                sp_color = JStr ''#ff0000'', sp_opacity = JNum (Fin 50), sp_time = 7,
                sp_action = None\<rparr>)"
proof -
  let ?kvs = "[(''x'', JNum (Fin 10)), (''y'', JNum (Fin 20)), (''px'', JNum (Fin 5)),
               (''py'', JNum (Fin 5)), (''size'', JNum (Fin 3)),
               (''color'', JStr ''#ff0000''), (''alpha'', JNum (Fin (1 / 2)))]"
  have h1: "''draw'' \<in> set DRAWING_EVENTS" by (simp add: DRAWING_EVENTS_def)
  have h2: "valid_namespace (Some ''room'')" by (simp add: valid_namespace_def)
  have h3: "startsWith draw_json (CHR ''['')" by (simp add: draw_json_def)
  have h4: "example_JSON_parse draw_json = Some (JArr (JStr ''draw'' # JObj ?kvs # []))"
    by (simp add: example_JSON_parse_def)
  have h5: "numeric_payload ?kvs"
    by (simp add: numeric_payload_def is_num_def is_nonzero_num_def is_nonempty_str_def
                  is_double_examples)
  have t: "frame_text (Some ''room'') draw_json =
     ''42/room,[\"draw\",{\"x\":10,\"y\":20,\"px\":5,\"py\":5,\"size\":3,\"color\":\"#ff0000\",\"alpha\":0.5}]''"
    by (simp add: frame_text_def message_frame_def draw_json_def)
  have p: "aliased_point ''draw'' (JObj ?kvs) 7 =
        \<lparr>sp_type = ''line'', sp_x = JNum (Fin 10), sp_y = JNum (Fin 20),
                sp_prevX = JNum (Fin 5), sp_prevY = JNum (Fin 5), sp_size = JNum (Fin 3),
                sp_color = JStr ''#ff0000'', sp_opacity = JNum (Fin 50), sp_time = 7,
                sp_action = None\<rparr>"
    by (simp add: aliased_point_def or_default_def scaled_def half_times_100 del: dmul.simps)
  from decode_numeric_payload [where jp = example_JSON_parse and json = draw_json
      and tn = example_toNumber and now = 7 and ns = "Some ''room''", OF h1 h2 h3 h4 h5]
  have "decodeToStrokePoint example_JSON_parse example_toNumber 7
          (frame_text (Some ''room'') draw_json) =
        Inr (Some (aliased_point ''draw'' (JObj ?kvs) 7))" .
  with h1 h2 h3 h4 h5 p show ?thesis unfolding t by simp
qed

text \<open>
  Claim C1 as stated fails. With both \<^verbatim>\<open>size\<close> and \<^verbatim>\<open>width\<close> present the stroke point takes
  the width, 7, where the first of size, width, thickness is the size, 3. For the
  whitelisted event clear with \<^verbatim>\<open>x\<close> 10 the stroke point has \<^verbatim>\<open>x\<close> 0, size 0 and opacity 0.
  For \<^verbatim>\<open>a\<close> 0.07 the opacity is the double 7.000000000000001, which is not 100 times the
  value of \<^verbatim>\<open>a\<close>. And the frame \<^verbatim>\<open>4212,["draw",...]\<close>, with an acknowledgement id, gives no
  stroke point at all.
\<close>
theorem first_alias_counterexample:
  "decodeToStrokePoint example_JSON_parse example_toNumber 0 (message_frame widths_json) =
     Inr (Some \<lparr>sp_type = ''line'', sp_x = JNum (Fin 0), sp_y = JNum (Fin 0), sp_prevX = JNull,
                sp_prevY = JNull, sp_size = JNum (Fin 7), sp_color = JStr ''#000000'',
                sp_opacity = JNum (Fin 100), sp_time = 0, sp_action = None\<rparr>) \<and>
   spec_size (JObj [(''size'', JNum (Fin 3)), (''width'', JNum (Fin 7))]) = JNum (Fin 3) \<and>
   decodeToStrokePoint example_JSON_parse example_toNumber 0 (message_frame clear_json) =
     Inr (Some \<lparr>sp_type = ''clear'', sp_x = JNum (Fin 0), sp_y = JNum (Fin 0),
                sp_prevX = JUndefined, sp_prevY = JUndefined, sp_size = JNum (Fin 0),
                sp_color = JStr ''#000000'', sp_opacity = JNum (Fin 0), sp_time = 0,
                sp_action = Some ''clear''\<rparr>) \<and>
   get_prop (JObj [(''x'', JNum (Fin 10))]) ''x'' = JNum (Fin 10) \<and>
   decodeToStrokePoint example_JSON_parse example_toNumber 0 (message_frame faint_json) =
     Inr (Some \<lparr>sp_type = ''line'', sp_x = JNum (Fin 0), sp_y = JNum (Fin 0), sp_prevX = JNull,
                sp_prevY = JNull, sp_size = JNum (Fin 5), sp_color = JStr ''#000000'',
                sp_opacity = JNum (Fin (7881299347898369 / 1125899906842624)), sp_time = 0,
                sp_action = None\<rparr>) \<and>
   (1261007895663739 / 18014398509481984) * 100 \<noteq> (7881299347898369 / 1125899906842624 :: real) \<and>
   decodeToStrokePoint example_JSON_parse example_toNumber 0
     (message_frame (''12,'' @ draw_json)) = Inr None"
  using parse_example_acknowledged [of example_toNumber 0]
  by (simp add: decodeToStrokePoint_def parse_example_widths parse_example_clear
                parse_example_faint convertToStrokePoint_def spec_size_def js_or_def)

text \<open>
  A present zero does not survive the conversion: normalization keeps an opacity of 0,
  the conversion's \<^verbatim>\<open>data.opacity || 100\<close> replaces it by the default, and likewise for a
  size of 0 and a previous coordinate of 0.
\<close>

lemma zero_fields_replaced_by_defaults:
  "normalizeDrawingData tn ''draw''
     (JObj [(''opacity'', JNum (Fin 0)), (''size'', JNum (Fin 0)), (''px'', JNum (Fin 0))]) = Inr n \<Longrightarrow>
   n_opacity n = JNum (Fin 0) \<and> n_size n = JNum (Fin 0) \<and> n_prevX n = JNum (Fin 0) \<and>
   map_option sp_opacity
     (convertToStrokePoint \<lparr>ev_type = ''draw'', ev_data = n, ev_timestamp = now\<rparr>)
     = Some (JNum (Fin 100)) \<and>
   map_option sp_size
     (convertToStrokePoint \<lparr>ev_type = ''draw'', ev_data = n, ev_timestamp = now\<rparr>)
     = Some (JNum (Fin 5)) \<and>
   map_option sp_prevX
     (convertToStrokePoint \<lparr>ev_type = ''draw'', ev_data = n, ev_timestamp = now\<rparr>)
     = Some JNull"
  by (auto simp: normalizeDrawingData_def assign_if_defined_def assign_opacity_def
                 js_times100_def convertToStrokePoint_def js_or_def double_eval)

subsection \<open>When the decoder returns null, and when it throws\<close>

lemma parse_null_on_other_transport_tag:
  assumes "leading_digit raw = Some (d, rest)" and "d \<noteq> PACKET_MESSAGE"
  shows "parse jp tn now raw = Inr None"
  using assms by (simp add: parse_def parseSocketPacket_def parseSocketPacket_try_def)

lemma isDrawingEvent_iff:
  "isDrawingEvent p \<longleftrightarrow>
     pk_type p = MESSAGE_EVENT \<and>
     (\<exists>name rest. pk_data p = JArr (JStr name # rest) \<and> name \<in> set DRAWING_EVENTS)"
  by (auto simp: isDrawingEvent_def split: jsval.splits list.splits)

lemma parse_null_unless_drawing_event:
  assumes "parseSocketPacket jp raw = None \<or>
           (\<exists>p. parseSocketPacket jp raw = Some p \<and> \<not> isDrawingEvent p)"
  shows "parse jp tn now raw = Inr None"
  using assms by (auto simp: parse_def extractDrawingData_def)

lemma parse_null_on_JSON_failure:
  assumes "\<And>s. jp s = None"
  shows "parse jp tn now raw = Inr None"
proof (cases "parseSocketPacket jp raw")
  case None
  then show ?thesis by (simp add: parse_def)
next
  case (Some p)
  then have "\<exists>s. pk_data p = JStr s"
    using assms
    by (auto simp: parseSocketPacket_def parseSocketPacket_try_def Let_def
             split: option.splits prod.splits if_splits sum.splits)
  then have "\<not> isDrawingEvent p" by (auto simp: isDrawingEvent_iff)
  with Some show ?thesis by (simp add: parse_def extractDrawingData_def)
qed

lemma normalize_throws_only_TypeError:
  "normalizeDrawingData tn ev raw = Inl e \<Longrightarrow>
     e = TypeError \<and>
     (toPrimitive_throws (get_prop raw ''opacity'') \<or> toPrimitive_throws (get_prop raw ''alpha'') \<or>
      toPrimitive_throws (get_prop raw ''a''))"
  by (auto simp: normalizeDrawingData_def Let_def assign_opacity_def js_times100_def
           split: sum.splits if_splits)

lemma parse_throws_only_TypeError:
  "parse jp tn now raw = Inl e \<Longrightarrow> e = TypeError"
  by (auto simp: parse_def extractDrawingData_def Let_def
           dest: normalize_throws_only_TypeError split: option.splits if_splits jsval.splits sum.splits)

text \<open>
  Claim C7 says that the decoder never throws. On the frame
  \<^verbatim>\<open>42["draw",{"a":{"toString":0}}]\<close> it does: the payload's \<^verbatim>\<open>a\<close> is an object that cannot
  be converted to a primitive, the product \<^verbatim>\<open>rawData.a * 100\<close> throws a \<^verbatim>\<open>TypeError\<close>, and
  normalization runs outside the \<^verbatim>\<open>try\<close> block of \<^verbatim>\<open>_parseSocketPacket\<close>.
\<close>
theorem parse_throws_TypeError:
  "parse example_JSON_parse example_toNumber 0 (message_frame throwing_json) = Inl TypeError"
  by (simp add: decode_defs)

text \<open>A well-formed draw frame is decoded to a stroke point.\<close>

lemma decode_well_formed:
  assumes "well_formed_draw jp ns json"
  shows "\<exists>p. decodeToStrokePoint jp tn now (frame_text ns json) = Inr (Some p)"
proof -
  from assms have ns: "valid_namespace ns" and st: "startsWith json (CHR ''['')"
    and dj: "drawing_json (jp json)"
    by (simp_all add: well_formed_draw_def)
  from dj obtain ev args where
    jp: "jp json = Some (JArr (JStr ev # args))" and ev: "ev \<in> set DRAWING_EVENTS"
    and nt: "list_all (\<lambda>k. \<not> toPrimitive_throws
                (get_prop (case args of [] \<Rightarrow> JUndefined | payload # others \<Rightarrow> payload) k))
               [''opacity'', ''alpha'', ''a'']"
    by (auto elim: drawing_json.elims(2))
  let ?pk = "\<lparr>pk_type = MESSAGE_EVENT,
             pk_namespace = (case ns of None \<Rightarrow> ''/'' | Some name \<Rightarrow> CHR ''/'' # name),
             pk_data = JArr (JStr ev # args), pk_id = None\<rparr>"
  let ?raw = "js_or (js_index (JArr (JStr ev # args)) 1) (JObj [])"
  have pk: "parseSocketPacket jp (frame_text ns json) = Some ?pk"
    using ns st jp by (rule parseSocketPacket_frame_text)
  have draw: "isDrawingEvent ?pk" using ev by (simp add: isDrawingEvent_def)
  have raw: "\<not> toPrimitive_throws (get_prop ?raw k)"
    if "k \<in> {''opacity'', ''alpha'', ''a''}" for k
    using nt that by (cases args) (auto simp: js_or_def)
  obtain n where n: "normalizeDrawingData tn ev ?raw = Inr n"
  proof (cases "normalizeDrawingData tn ev ?raw")
    case (Inl e)
    from normalize_throws_only_TypeError [OF this] raw show ?thesis by auto
  next
    case (Inr n)
    with that show ?thesis .
  qed
  have "\<exists>p. convertToStrokePoint \<lparr>ev_type = ev, ev_data = n, ev_timestamp = now\<rparr> = Some p"
    by (simp add: convertToStrokePoint_def)
  then show ?thesis
    unfolding decodeToStrokePoint_def parse_def pk extractDrawingData_def
    using draw n by (simp del: js_index.simps) (simp add: n)
qed

section \<open>Properties of the Recorder\<close>

lemma processFrame_recording:
  assumes "isRecording r" and "currentSession r = Some cur"
  shows "isRecording (processFrame jp tn now r d) \<and>
         currentSession (processFrame jp tn now r d) = Some cur \<and>
         originalSend (processFrame jp tn now r d) = originalSend r \<and>
         strokeBuffer (processFrame jp tn now r d) =
           strokeBuffer r @ (case captured jp tn (now, d) of None \<Rightarrow> [] | Some p \<Rightarrow> [p])"
  using assms
  by (auto simp: processFrame_def captured_def decodeToStrokePoint_def Let_def
           split: frame.splits sum.splits option.splits)

lemma processFrame_session:
  "currentSession (processFrame jp tn now r d) = currentSession r \<and>
   isRecording (processFrame jp tn now r d) = isRecording r"
  by (auto simp: processFrame_def Let_def split: frame.splits sum.splits option.splits)

lemma sendAll_recording:
  assumes "sendAll send jp tn (r, w) fs = Inr (r', w')"
      and "isRecording r" and "currentSession r = Some cur"
  shows "isRecording r' \<and> currentSession r' = Some cur \<and>
         strokeBuffer r' = strokeBuffer r @ List.map_filter (captured jp tn) fs"
  using assms
proof (induction fs arbitrary: r w)
  case Nil
  then show ?case by (simp add: List.map_filter_simps)
next
  case (Cons f fs)
  obtain now d where f: "f = (now, d)" by (cases f)
  from Cons.prems(1) f obtain w1 where
    rest: "sendAll send jp tn (processFrame jp tn now r d, w1) fs = Inr (r', w')"
    by (auto simp: interceptedSend_def split: if_splits sum.splits)
  note pf = processFrame_recording [OF Cons.prems(2,3), of jp tn now d]
  from Cons.IH [OF rest] pf
  show ?case using f
    by (auto simp: List.map_filter_simps split: option.splits)
qed

lemma startRecording_state:
  "isRecording (snd (startRecording sid t0 r)) \<and>
   currentSession (snd (startRecording sid t0 r)) = Some (fst (startRecording sid t0 r)) \<and>
   strokeBuffer (snd (startRecording sid t0 r)) = [] \<and>
   originalSend (snd (startRecording sid t0 r)) \<and>
   session_id (fst (startRecording sid t0 r)) = sid \<and>
   startTime (fst (startRecording sid t0 r)) = t0 \<and>
   strokes (fst (startRecording sid t0 r)) = []"
  by (simp add: startRecording_def Let_def patchWebSocket_def)

text \<open>
  Claim C5. While the interception is installed, the callback receives every frame the
  host sends and, as its first action, hands it to the real transport exactly as
  received: the call changes the transport as the direct call \<open>send w d\<close> does, and an
  exception leaves the callback only if the transport itself threw it. The Recorder's
  own processing comes after the forward and only changes the Recorder. This holds for
  every recorder state (recording or not), for textual and binary frames, for every
  behaviour of \<^verbatim>\<open>JSON.parse\<close> and of the data callback, also when the decoder throws.
\<close>
theorem interceptedSend_transparent:
  assumes "originalSend r"
  shows "(case interceptedSend send jp tn now (r, w) d of
            Inl e \<Rightarrow> send w d = Inl e
          | Inr (r', w') \<Rightarrow> send w d = Inr w' \<and> r' = processFrame jp tn now r d)"
  using assms by (simp add: interceptedSend_def split: sum.splits)

theorem interceptedSend_transparent_witness:
  "originalSend (snd (startRecording ''rec_1'' 0 createRecorder)) \<and>
   parse example_JSON_parse example_toNumber 5 (message_frame throwing_json) = Inl TypeError \<and>
   (case interceptedSend example_send example_JSON_parse example_toNumber 5
           (snd (startRecording ''rec_1'' 0 createRecorder), [Binary [1, 2]])
           (Text (message_frame throwing_json)) of
      Inl e \<Rightarrow> False
    | Inr (r', w') \<Rightarrow> w' = [Binary [1, 2], Text (message_frame throwing_json)])"
proof -
  have h: "originalSend (snd (startRecording ''rec_1'' 0 createRecorder))"
    by (simp add: startRecording_state)
  from interceptedSend_transparent [OF h, where send = example_send
      and jp = example_JSON_parse and tn = example_toNumber and now = 5
      and w = "[Binary [1, 2]]" and d = "Text (message_frame throwing_json)"]
  show ?thesis using h
    by (simp add: parse_example_throwing example_send_def split: sum.splits prod.splits)
qed

lemma captured_well_formed:
  assumes "well_formed_draw jp ns json"
  shows "captured jp tn (now, Text (frame_text ns json)) \<noteq> None"
  using decode_well_formed [OF assms, of tn now] by (auto simp: captured_def)

text \<open>
  Claim C6, as amended. \<^verbatim>\<open>stopRecording\<close> without an active recording returns \<^verbatim>\<open>null\<close> and
  changes nothing. After \<^verbatim>\<open>startRecording\<close> at clock reading \<open>t0\<close>, frames \<open>fs\<close> forwarded
  through the interception and \<^verbatim>\<open>stopRecording\<close> at clock reading \<open>t1\<close>, the returned session
  has start time \<open>t0\<close>, end time \<open>t1\<close>, so that the end time is at least the start time
  exactly when the clock did not run backwards, and as strokes exactly the points
  captured from \<open>fs\<close>, in the order of the frames. When the frames are two well-formed draw
  frames, with or without a namespace and whatever the numbers in their payloads, the
  session has two strokes.
\<close>

theorem stopRecording_finalizes:
  "(\<not> isRecording r \<longrightarrow> stopRecording t1 r = (None, r)) \<and>
   (sendAll send jp tn (snd (startRecording sid t0 r0), w0) fs = Inr (r1, w1) \<longrightarrow>
      (\<exists>s. fst (stopRecording t1 r1) = Some s \<and>
           strokes s = List.map_filter (captured jp tn) fs \<and>
           session_id s = sid \<and> startTime s = t0 \<and> endTime s = t1 \<and>
           (startTime s \<le> endTime s \<longleftrightarrow> t0 \<le> t1) \<and>
           \<not> isRecording (snd (stopRecording t1 r1)))) \<and>
   (sendAll send jp tn (snd (startRecording sid t0 r0), w0)
        [(ta, Text (frame_text na ja)), (tb, Text (frame_text nb jb))] = Inr (r2, w2) \<and>
    well_formed_draw jp na ja \<and> well_formed_draw jp nb jb \<longrightarrow>
      (\<exists>s. fst (stopRecording t1 r2) = Some s \<and> length (strokes s) = 2 \<and>
           startTime s = t0 \<and> endTime s = t1))"
proof -
  have general:
    "\<exists>s. fst (stopRecording t1 r') = Some s \<and>
           strokes s = List.map_filter (captured jp tn) fs' \<and>
           session_id s = sid \<and> startTime s = t0 \<and> endTime s = t1 \<and>
           (startTime s \<le> endTime s \<longleftrightarrow> t0 \<le> t1) \<and>
           \<not> isRecording (snd (stopRecording t1 r'))"
    if a: "sendAll send jp tn (snd (startRecording sid t0 r0), w0) fs' = Inr (r', w')"
    for fs' r' w'
  proof -
    let ?s0 = "fst (startRecording sid t0 r0)"
    note st = startRecording_state [of sid t0 r0]
    from a st sendAll_recording [of send jp tn "snd (startRecording sid t0 r0)" w0 fs' r' w' ?s0]
    have r1: "isRecording r'" "currentSession r' = Some ?s0"
      "strokeBuffer r' = List.map_filter (captured jp tn) fs'"
      by simp_all
    show ?thesis using r1 st by (simp add: stopRecording_def)
  qed
  have idle: "\<not> isRecording r \<longrightarrow> stopRecording t1 r = (None, r)"
    by (simp add: stopRecording_def)
  have two: "\<exists>s. fst (stopRecording t1 r2) = Some s \<and> length (strokes s) = 2 \<and>
                startTime s = t0 \<and> endTime s = t1"
    if a: "sendAll send jp tn (snd (startRecording sid t0 r0), w0)
             [(ta, Text (frame_text na ja)), (tb, Text (frame_text nb jb))] = Inr (r2, w2)"
      and wf: "well_formed_draw jp na ja" "well_formed_draw jp nb jb"
  proof -
    from general [OF a] obtain s where s: "fst (stopRecording t1 r2) = Some s"
      "strokes s = List.map_filter (captured jp tn)
                     [(ta, Text (frame_text na ja)), (tb, Text (frame_text nb jb))]"
      "startTime s = t0" "endTime s = t1"
      by blast
    from captured_well_formed [OF wf(1), of tn ta] captured_well_formed [OF wf(2), of tn tb]
    have "length (List.map_filter (captured jp tn)
                    [(ta, Text (frame_text na ja)), (tb, Text (frame_text nb jb))]) = 2"
      by (auto simp: List.map_filter_simps)
    with s show ?thesis by auto
  qed
  show ?thesis
    using idle general two by blast
qed

lemma processFrame_originalSend:
  "originalSend (processFrame jp tn now r d) = originalSend r"
  by (auto simp: processFrame_def Let_def split: frame.splits sum.splits option.splits)

lemma sendAll_example_send:
  "originalSend r \<Longrightarrow> \<exists>r1 w1. sendAll example_send jp tn (r, w) fs = Inr (r1, w1)"
proof (induction fs arbitrary: r w)
  case Nil
  then show ?case by simp
next
  case (Cons f fs)
  obtain now d where f: "f = (now, d)" by (cases f)
  have "originalSend (processFrame jp tn now r d)"
    using Cons.prems by (simp add: processFrame_originalSend)
  from Cons.IH [OF this, of "w @ [d]"] show ?case
    using Cons.prems f by (simp add: interceptedSend_def example_send_def)
qed

text \<open>The scenario of the specification: the frame
  \<^verbatim>\<open>42["draw",{"x":10,"y":20,"px":5,"py":5,"size":3,"color":"#ff0000","alpha":0.5}]\<close> is
  captured as the point with opacity 50.\<close>

lemma captured_example_draw:
  "captured example_JSON_parse tn
     (now, Text (message_frame draw_json))
   = Some \<lparr>sp_type = ''line'', sp_x = JNum (Fin 10), sp_y = JNum (Fin 20),
           sp_prevX = JNum (Fin 5), sp_prevY = JNum (Fin 5), sp_size = JNum (Fin 3),
           sp_color = JStr ''#ff0000'', sp_opacity = JNum (Fin 50), sp_time = now,
           sp_action = None\<rparr>"
  by (simp add: captured_def decodeToStrokePoint_def parse_example_draw
                convertToStrokePoint_def js_or_def)

lemma captured_example_line:
  "captured example_JSON_parse tn (now, Text (message_frame line_json))
   = Some \<lparr>sp_type = ''line'', sp_x = JNum (Fin 1), sp_y = JNum (Fin 2), sp_prevX = JNull,
           sp_prevY = JNull, sp_size = JNum (Fin 5), sp_color = JStr ''#000000'',
           sp_opacity = JNum (Fin 100), sp_time = now, sp_action = None\<rparr>"
  by (simp add: captured_def decodeToStrokePoint_def parse_example_line
                convertToStrokePoint_def js_or_def)

theorem stopRecording_finalizes_witness:
  "\<exists>r2 w2.
     sendAll example_send example_JSON_parse example_toNumber
       (snd (startRecording ''rec_1'' 10 createRecorder), [])
       [(11, Text (frame_text (Some ''room'') draw_json)), (12, Text (frame_text None zero_json))]
       = Inr (r2, w2) \<and>
     well_formed_draw example_JSON_parse (Some ''room'') draw_json \<and>
     well_formed_draw example_JSON_parse None zero_json \<and>
     (\<exists>s. fst (stopRecording 20 r2) = Some s \<and> length (strokes s) = 2 \<and>
          startTime s = 10 \<and> endTime s = 20)"
proof -
  let ?fs = "[(11::int, Text (frame_text (Some ''room'') draw_json)),
              (12, Text (frame_text None zero_json))]"
  have "originalSend (snd (startRecording ''rec_1'' 10 createRecorder))"
    by (simp add: startRecording_state)
  from sendAll_example_send [OF this, of example_JSON_parse example_toNumber "[]" ?fs]
  obtain r2 w2 where run:
    "sendAll example_send example_JSON_parse example_toNumber
       (snd (startRecording ''rec_1'' 10 createRecorder), []) ?fs = Inr (r2, w2)"
    by blast
  have wf: "well_formed_draw example_JSON_parse (Some ''room'') draw_json"
    "well_formed_draw example_JSON_parse None zero_json"
    by (simp_all add: well_formed_draw_def valid_namespace_def example_JSON_parse_def
          draw_json_def line_json_def widths_json_def throwing_json_def clear_json_def
          faint_json_def zero_json_def DRAWING_EVENTS_def)
  have "sendAll example_send example_JSON_parse example_toNumber
          (snd (startRecording ''rec_1'' 10 createRecorder), []) ?fs = Inr (r2, w2) \<and>
        well_formed_draw example_JSON_parse (Some ''room'') draw_json \<and>
        well_formed_draw example_JSON_parse None zero_json"
    using run wf by simp
  with stopRecording_finalizes [where send = example_send and jp = example_JSON_parse
      and tn = example_toNumber and sid = "''rec_1''" and ?t0.0 = 10 and ?r0.0 = createRecorder
      and ?w0.0 = "[]" and ta = 11 and tb = 12 and na = "Some ''room''" and ja = draw_json
      and nb = None and jb = zero_json
      and ?r2.0 = r2 and ?w2.0 = w2 and ?t1.0 = 20 and r = createRecorder
      and fs = "[]" and ?r1.0 = createRecorder and ?w1.0 = "[]"]
  obtain s where s: "fst (stopRecording 20 r2) = Some s" "length (strokes s) = 2"
    "startTime s = 10" "endTime s = 20"
    by blast
  show ?thesis
    using run wf s by (intro exI [of _ r2] exI [of _ w2]) simp
qed

text \<open>
  Claim C6 as stated fails where it says that every finalized session has an end time
  not before its start time: the two times are readings of the wall clock, stored as
  they are. A recording started at reading 10 and stopped at reading 5, the clock having
  been set back in between, ends before it starts.
\<close>
theorem clock_set_back_counterexample:
  "fst (stopRecording 5 (snd (startRecording ''rec_1'' 10 createRecorder))) =
     Some \<lparr>session_id = ''rec_1'', startTime = 10, endTime = 5, strokes = [],
           metadata = Some [(''version'', ''1.0''), (''source'', ''gartic-phone-extension'')]\<rparr> \<and>
   \<not> (10::int) \<le> 5"
  by (simp add: stopRecording_def startRecording_def patchWebSocket_def createRecorder_def
                Let_def)

lemma reachable_recording_session:
  "reachable jp tn r \<Longrightarrow> isRecording r \<Longrightarrow> \<exists>s. currentSession r = Some s \<and> strokes s = []"
proof (induction rule: reachable.induct)
  case reach_create
  then show ?case by (simp add: createRecorder_def)
next
  case (reach_init r)
  then show ?case by (simp add: recorder_init_def patchWebSocket_def split: if_splits)
next
  case (reach_start r sid now)
  then show ?case by (simp add: startRecording_state)
next
  case (reach_stop r now)
  then show ?case by (auto simp: stopRecording_def split: if_splits option.splits)
next
  case (reach_frame r now d)
  then show ?case by (simp add: processFrame_session)
next
  case (reach_callback r cb)
  then show ?case by (simp add: setOnDataCallback_def)
next
  case (reach_destroy r now)
  then show ?case
    by (auto simp: recorder_destroy_def stopRecording_def unpatchWebSocket_def Let_def
             split: if_splits option.splits)
qed

text \<open>
  Claim C8. In every reachable state in which the Recorder is recording,
  \<^verbatim>\<open>getCurrentSession\<close> returns a session whose strokes are empty; a frame that arrives leaves
  that session as it is and adds the captured point, if any, to the buffer that
  \<^verbatim>\<open>getStrokeCount\<close> measures; \<^verbatim>\<open>stopRecording\<close> returns the session with the buffer as its
  strokes.
\<close>
theorem recording_session_has_no_strokes:
  assumes "reachable jp tn r" and "isRecording r"
  shows "\<exists>s. getCurrentSession r = Some s \<and> strokes s = [] \<and>
           (\<forall>now d. getCurrentSession (processFrame jp tn now r d) = Some s \<and>
                    getStrokeCount (processFrame jp tn now r d) =
                      getStrokeCount r + (case captured jp tn (now, d) of None \<Rightarrow> 0 | Some p \<Rightarrow> 1)) \<and>
           (\<forall>now. \<exists>s'. fst (stopRecording now r) = Some s' \<and> strokes s' = strokeBuffer r)"
proof -
  from reachable_recording_session [OF assms] obtain s where
    s: "currentSession r = Some s" "strokes s = []" by blast
  have "getCurrentSession (processFrame jp tn now r d) = Some s \<and>
        getStrokeCount (processFrame jp tn now r d) =
          getStrokeCount r + (case captured jp tn (now, d) of None \<Rightarrow> 0 | Some p \<Rightarrow> 1)" for now d
    using processFrame_recording [OF assms(2) s(1), of jp tn now d]
    by (simp add: getCurrentSession_def getStrokeCount_def split: option.splits)
  moreover have "\<exists>s'. fst (stopRecording now r) = Some s' \<and> strokes s' = strokeBuffer r" for now
    using assms(2) s by (simp add: stopRecording_def)
  ultimately show ?thesis using s by (simp add: getCurrentSession_def)
qed

theorem recording_session_has_no_strokes_witness:
  "reachable example_JSON_parse example_toNumber
     (processFrame example_JSON_parse example_toNumber 5
        (snd (startRecording ''rec_1'' 0 (recorder_init createRecorder)))
        (Text (message_frame line_json))) \<and>
   isRecording
     (processFrame example_JSON_parse example_toNumber 5
        (snd (startRecording ''rec_1'' 0 (recorder_init createRecorder)))
        (Text (message_frame line_json))) \<and>
   getStrokeCount
     (processFrame example_JSON_parse example_toNumber 5
        (snd (startRecording ''rec_1'' 0 (recorder_init createRecorder)))
        (Text (message_frame line_json))) = 1 \<and>
   (\<exists>s. getCurrentSession
          (processFrame example_JSON_parse example_toNumber 5
             (snd (startRecording ''rec_1'' 0 (recorder_init createRecorder)))
             (Text (message_frame line_json))) = Some s \<and> strokes s = [])"
proof -
  let ?start = "snd (startRecording ''rec_1'' 0 (recorder_init createRecorder))"
  let ?cur = "processFrame example_JSON_parse example_toNumber 5 ?start
              (Text (message_frame line_json))"
  have st: "isRecording ?start" "originalSend ?start"
    "currentSession ?start = Some (fst (startRecording ''rec_1'' 0 (recorder_init createRecorder)))"
    "strokeBuffer ?start = []"
    by (simp_all add: startRecording_state)
  have reach0: "reachable example_JSON_parse example_toNumber ?start"
    by (intro reach_start reach_init reach_create)
  have reach: "reachable example_JSON_parse example_toNumber ?cur"
    by (rule reach_frame [OF reach0 st(2)])
  note pf = processFrame_recording [OF st(1) st(3), of example_JSON_parse example_toNumber 5
              "Text (message_frame line_json)"]
  have rec: "isRecording ?cur" using pf by simp
  have cnt: "getStrokeCount ?cur = 1"
    using pf st(4) by (simp add: getStrokeCount_def captured_example_line)
  from recording_session_has_no_strokes [OF reach rec] reach rec cnt
  show ?thesis by blast
qed

section \<open>Properties of the export format\<close>

text \<open>
  Claim C9. The export object built from a session has version 1.0, the format
  \<^verbatim>\<open>gartic-timelapse\<close>, the summary (id, start and end time, duration, number of strokes),
  and the strokes; importing that object gives a session with the same strokes, in the
  same order and with the same field values, and the same start and end time.
\<close>
theorem export_import_strokes:
  "strokes (importSession fresh (exportData s)) = strokes s \<and>
   startTime (importSession fresh (exportData s)) = startTime s \<and>
   endTime (importSession fresh (exportData s)) = endTime s \<and>
   ed_version (exportData s) = Some ''1.0'' \<and>
   ed_format (exportData s) = Some ''gartic-timelapse'' \<and>
   ed_session (exportData s) =
     Some \<lparr>sm_id = session_id s, sm_startTime = startTime s, sm_endTime = endTime s,
           sm_duration = endTime s - startTime s, sm_strokesCount = length (strokes s)\<rparr> \<and>
   ed_strokes (exportData s) = Some (strokes s)"
  by (simp add: importSession_def exportData_def)

theorem export_import_strokes_witness:
  "strokes (importSession ''imported_9''
      (exportData (example_session [example_point 10 20, example_point 30 40]))) =
   [example_point 10 20, example_point 30 40]"
  using export_import_strokes [of "''imported_9''"
      "example_session [example_point 10 20, example_point 30 40]"]
  by (simp add: example_session_def)

section \<open>Properties of the Player\<close>

subsection \<open>What a tick and a seek paint\<close>

lemma drawPoint_chained:
  "drawPoint p prevPoint (Some c) = Some (c\<lparr>cv_ops := cv_ops c @ chained prevPoint [p]\<rparr>)"
  by (cases prevPoint) (simp_all add: drawPoint_def Let_def)

lemma chained_Cons:
  "chained prevPoint [p] @ chained (Some p) ps = chained prevPoint (p # ps)"
  by (cases prevPoint) simp_all

lemma length_chained: "length (chained prevPoint ps) = length ps"
proof (induction ps arbitrary: prevPoint)
  case Nil
  then show ?case by simp
next
  case (Cons p ps)
  then show ?case by (cases prevPoint) simp_all
qed

lemma less_ceiling_nat: "real i < r \<longleftrightarrow> i < nat \<lceil>r\<rceil>"
  using less_ceiling_iff [of "int i" r] by auto

text \<open>The iterations left to the drawing loop at iteration \<open>i\<close> with cursor \<open>idx\<close>.\<close>

lemma drawStrokes_steps:
  assumes "k = (case strokesToDraw of
                  Fin r \<Rightarrow> min (nat \<lceil>r\<rceil> - i) (length ps - idx)
                | PInf \<Rightarrow> length ps - idx
                | NInf \<Rightarrow> 0
                | NaN \<Rightarrow> 0)"
  shows "drawStrokes ps strokesToDraw i prevPoint idx (Some c) =
           (idx + k, Some (c\<lparr>cv_ops := cv_ops c @ chained prevPoint (take k (drop idx ps))\<rparr>))"
  using assms
proof (induction k arbitrary: i prevPoint idx c)
  case 0
  then have "(js_less (Fin (real i)) strokesToDraw \<and> idx < length ps) = False"
    by (cases strokesToDraw) (auto simp: less_ceiling_nat)
  then show ?case by (subst drawStrokes.simps) (simp only: if_False, simp)
next
  case (Suc k)
  from Suc.prems have go: "js_less (Fin (real i)) strokesToDraw" "idx < length ps"
    by (cases strokesToDraw; auto simp: less_ceiling_nat)+
  from Suc.prems have k: "k = (case strokesToDraw of
                  Fin r \<Rightarrow> min (nat \<lceil>r\<rceil> - Suc i) (length ps - Suc idx)
                | PInf \<Rightarrow> length ps - Suc idx
                | NInf \<Rightarrow> 0
                | NaN \<Rightarrow> 0)"
    by (cases strokesToDraw) auto
  have d: "drop idx ps = ps ! idx # drop (Suc idx) ps"
    using go(2) by (simp add: Cons_nth_drop_Suc)
  show ?case
    using go
    by (subst drawStrokes.simps)
       (simp add: Let_def drawPoint_chained Suc.IH [OF k] d chained_Cons)
qed

lemma drawStrokes_chained:
  "drawStrokes ps strokesToDraw 0 prevPoint idx (Some c) =
     (idx + strokes_in_tick strokesToDraw (length ps - idx),
      Some (c\<lparr>cv_ops := cv_ops c @
        chained prevPoint (take (strokes_in_tick strokesToDraw (length ps - idx)) (drop idx ps))\<rparr>))"
  by (rule drawStrokes_steps) (simp add: strokes_in_tick_def split: jsnum.splits)

lemma animationLoop_draws:
  assumes "isPlaying s" and "\<not> isPaused s" and "playerSession s = Some sess"
      and "currentStrokeIndex s < length (strokes sess)" and "canvas s = Some c"
  shows "animationLoop timestamp now s =
           s\<lparr>lastFrameTime := timestamp,
             currentStrokeIndex :=
               currentStrokeIndex s +
                 strokes_in_tick
                   (calculateStrokesPerFrame s (to_double (timestamp - lastFrameTime s)))
                   (length (strokes sess) - currentStrokeIndex s),
             canvas := Some (c\<lparr>cv_ops := cv_ops c @
                 chained None
                   (take (strokes_in_tick
                            (calculateStrokesPerFrame s (to_double (timestamp - lastFrameTime s)))
                            (length (strokes sess) - currentStrokeIndex s))
                      (drop (currentStrokeIndex s) (strokes sess)))\<rparr>),
             frameRequested := True\<rparr>"
proof -
  have c: "calculateStrokesPerFrame (s\<lparr>lastFrameTime := timestamp\<rparr>) d
             = calculateStrokesPerFrame s d" for d
    by (simp add: calculateStrokesPerFrame_def)
  show ?thesis
    using assms by (simp add: animationLoop_def Let_def c drawStrokes_chained)
qed






lemma chained_nth:
  "ps \<noteq> [] \<Longrightarrow>
     chained None ps ! 0 =
       Dot (pt_x (ps ! 0)) (pt_y (ps ! 0)) (round_double (pt_size (ps ! 0) / 2))
         (pt_color (ps ! 0)) (round_double (pt_opacity (ps ! 0) / 100))"
  "Suc i < length ps \<Longrightarrow>
     chained prevPoint ps ! Suc i =
       Segment (pt_x (ps ! i)) (pt_y (ps ! i)) (pt_x (ps ! Suc i)) (pt_y (ps ! Suc i))
         (pt_size (ps ! Suc i)) (pt_color (ps ! Suc i))
         (round_double (pt_opacity (ps ! Suc i) / 100))"
proof -
  show "ps \<noteq> [] \<Longrightarrow>
     chained None ps ! 0 =
       Dot (pt_x (ps ! 0)) (pt_y (ps ! 0)) (round_double (pt_size (ps ! 0) / 2))
         (pt_color (ps ! 0)) (round_double (pt_opacity (ps ! 0) / 100))"
    by (cases ps) simp_all
  show "Suc i < length ps \<Longrightarrow>
     chained prevPoint ps ! Suc i =
       Segment (pt_x (ps ! i)) (pt_y (ps ! i)) (pt_x (ps ! Suc i)) (pt_y (ps ! Suc i))
         (pt_size (ps ! Suc i)) (pt_color (ps ! Suc i))
         (round_double (pt_opacity (ps ! Suc i) / 100))"
  proof (induction ps arbitrary: i prevPoint)
    case Nil
    then show ?case by simp
  next
    case (Cons p ps)
    obtain q qs where ps: "ps = q # qs" using Cons.prems by (cases ps) auto
    show ?case
    proof (cases i)
      case 0
      then show ?thesis using ps by (cases prevPoint) simp_all
    next
      case (Suc j)
      with Cons.prems have "Suc j < length ps" by simp
      from Cons.IH [OF this, of "Some p"] Suc show ?thesis
        by (cases prevPoint) simp_all
    qed
  qed
qed

subsection \<open>The number of strokes of a tick\<close>









subsection \<open>Example playbacks\<close>

lemma round_double_examples:
  "round_double (5 / 2) = 5 / 2" "round_double 1 = 1" "round_double 5 = 5"
  "round_double (seven_tenths * 10) = 7"
  by (simp_all add: double_eval seven_tenths_def)

lemma to_double_examples:
  "to_double 16 = Fin 16" "to_double (1 / 16) = Fin (1 / 16)" "to_double 1 = Fin 1"
  "to_double 51 = Fin 51" "to_double 510 = Fin 510" "to_double 10 = Fin 10"
  by (simp_all add: double_eval)

text \<open>A session with strokes, loaded into a new Player and played from clock reading 0.\<close>

lemma playing_state:
  assumes "strokes sess \<noteq> []"
  shows "isPlaying (snd (play 0 (snd (loadSession sess (createPlayer sp lp)))))"
    and "\<not> isPaused (snd (play 0 (snd (loadSession sess (createPlayer sp lp)))))"
    and "frameRequested (snd (play 0 (snd (loadSession sess (createPlayer sp lp)))))"
    and "playerSession (snd (play 0 (snd (loadSession sess (createPlayer sp lp))))) = Some sess"
    and "currentStrokeIndex (snd (play 0 (snd (loadSession sess (createPlayer sp lp))))) = 0"
    and "speed (snd (play 0 (snd (loadSession sess (createPlayer sp lp))))) = sp"
    and "\<exists>c. canvas (snd (play 0 (snd (loadSession sess (createPlayer sp lp))))) = Some c \<and>
             cv_ops c = []"
    and "loop (snd (play 0 (snd (loadSession sess (createPlayer sp lp))))) = lp"
    and "lastFrameTime (snd (play 0 (snd (loadSession sess (createPlayer sp lp))))) = 0"
  using assms
  by (simp_all add: play_def loadSession_def createPlayer_def notifyStateChange_def Let_def)

lemma length_ten_points: "length (strokes (example_session ten_points)) = 10"
  by (simp add: example_session_def ten_points_def)

lemma budget_150:
  "speed s = 150 \<Longrightarrow> calculateStrokesPerFrame s d = Fin 510"
  by (simp add: calculateStrokesPerFrame_def to_double_examples)


lemma budget_50:
  "speed s = 50 \<Longrightarrow> calculateStrokesPerFrame s (Fin 16) = Fin 1"
  by (simp add: calculateStrokesPerFrame_def to_double_examples Let_def)

text \<open>An example playback: ten strokes at speed 150; one tick draws them all.\<close>

lemma example_playback:
  "player_reachable
     (animationLoop 16 16
        (snd (play 0 (snd (loadSession (example_session ten_points) (createPlayer 150 False)))))) \<and>
   isPlaying
     (animationLoop 16 16
        (snd (play 0 (snd (loadSession (example_session ten_points) (createPlayer 150 False)))))) \<and>
   \<not> isPaused
     (animationLoop 16 16
        (snd (play 0 (snd (loadSession (example_session ten_points) (createPlayer 150 False)))))) \<and>
   \<not> loop
     (animationLoop 16 16
        (snd (play 0 (snd (loadSession (example_session ten_points) (createPlayer 150 False)))))) \<and>
   playerSession
     (animationLoop 16 16
        (snd (play 0 (snd (loadSession (example_session ten_points) (createPlayer 150 False))))))
     = Some (example_session ten_points) \<and>
   currentStrokeIndex
     (animationLoop 16 16
        (snd (play 0 (snd (loadSession (example_session ten_points) (createPlayer 150 False))))))
     = 10"
proof -
  let ?loaded = "snd (loadSession (example_session ten_points) (createPlayer 150 False))"
  let ?playing = "snd (play 0 ?loaded)"
  let ?ticked = "animationLoop 16 16 ?playing"
  have ne: "strokes (example_session ten_points) \<noteq> []"
    using length_ten_points by auto
  note playing = playing_state [OF ne, of 150 False]
  from playing(7) obtain c where c: "canvas ?playing = Some c" by blast
  have lt: "currentStrokeIndex ?playing < length (strokes (example_session ten_points))"
    using playing(5) length_ten_points by simp
  have tick: "?ticked = ?playing\<lparr>lastFrameTime := 16,
             currentStrokeIndex := 10,
             canvas := Some (c\<lparr>cv_ops := cv_ops c @
                 chained None (take 10 (drop 0 (strokes (example_session ten_points))))\<rparr>),
             frameRequested := True\<rparr>"
    using animationLoop_draws [OF playing(1,2,4) lt c, of 16 16]
    by (simp add: budget_150 [OF playing(6)] playing(5) length_ten_points strokes_in_tick_def)
  have reach: "player_reachable ?ticked"
    by (intro pr_tick pr_play pr_load pr_create playing(3))
  show ?thesis
    using reach by (simp add: tick playing)
qed




text \<open>
  Claim C10. \<^verbatim>\<open>stop\<close> on a Player that is not playing returns \<^verbatim>\<open>false\<close> and leaves the
  whole state as it is: the cursor, the progress and the log of state-change
  notifications. A playback that is not looping and whose cursor has reached the end is
  brought to this idle state by the next tick, with the cursor unchanged.
\<close>
theorem stop_when_idle:
  "(\<not> isPlaying s \<longrightarrow>
      stop s = (False, s) \<and> getProgress (snd (stop s)) = getProgress s \<and>
      currentStrokeIndex (snd (stop s)) = currentStrokeIndex s \<and>
      stateChanges (snd (stop s)) = stateChanges s) \<and>
   (isPlaying s \<and> \<not> isPaused s \<and> \<not> loop s \<and> playerSession s = Some sess \<and>
    length (strokes sess) \<le> currentStrokeIndex s \<longrightarrow>
      \<not> isPlaying (animationLoop timestamp now s) \<and>
      currentStrokeIndex (animationLoop timestamp now s) = currentStrokeIndex s \<and>
      stop (animationLoop timestamp now s) = (False, animationLoop timestamp now s))"
  by (auto simp: stop_def animationLoop_def onComplete_def notifyStateChange_def Let_def)

theorem stop_when_idle_witness:
  "\<not> isPlaying (createPlayer 50 False) \<and>
   stop (createPlayer 50 False) = (False, createPlayer 50 False) \<and>
   isPlaying
     (animationLoop 16 16
        (snd (play 0 (snd (loadSession (example_session ten_points) (createPlayer 150 False)))))) \<and>
   \<not> isPlaying
     (animationLoop 32 32 (animationLoop 16 16
        (snd (play 0 (snd (loadSession (example_session ten_points) (createPlayer 150 False))))))) \<and>
   stop
     (animationLoop 32 32 (animationLoop 16 16
        (snd (play 0 (snd (loadSession (example_session ten_points) (createPlayer 150 False)))))))
     = (False,
        animationLoop 32 32 (animationLoop 16 16
          (snd (play 0 (snd (loadSession (example_session ten_points)
                               (createPlayer 150 False))))))) \<and>
   currentStrokeIndex
     (animationLoop 32 32 (animationLoop 16 16
        (snd (play 0 (snd (loadSession (example_session ten_points) (createPlayer 150 False)))))))
     = 10"
proof -
  let ?ticked = "animationLoop 16 16
        (snd (play 0 (snd (loadSession (example_session ten_points) (createPlayer 150 False)))))"
  have len: "length (strokes (example_session ten_points)) = 10"
    by (simp add: example_session_def ten_points_def)
  have idle: "\<not> isPlaying (createPlayer 50 False)" by (simp add: createPlayer_def)
  from example_playback len have fin:
    "isPlaying ?ticked \<and> \<not> isPaused ?ticked \<and> \<not> loop ?ticked \<and>
     playerSession ?ticked = Some (example_session ten_points) \<and>
     length (strokes (example_session ten_points)) \<le> currentStrokeIndex ?ticked"
    and cur: "currentStrokeIndex ?ticked = 10"
    by simp_all
  from stop_when_idle [of "createPlayer 50 False"] idle
  have a: "stop (createPlayer 50 False) = (False, createPlayer 50 False)" by simp
  from stop_when_idle [where s = ?ticked and sess = "example_session ten_points"
      and timestamp = 32 and now = 32] fin cur
  have b: "\<not> isPlaying (animationLoop 32 32 ?ticked)"
    "currentStrokeIndex (animationLoop 32 32 ?ticked) = 10"
    "stop (animationLoop 32 32 ?ticked) = (False, animationLoop 32 32 ?ticked)"
    by simp_all
  show ?thesis using idle a b fin by simp
qed




text \<open>
  Claim C2 says that during playback every stroke but the very first is joined to the
  stroke rendered before it, also across ticks. The code starts every tick with no
  previous point: with two strokes at speed 50 and ticks 16 ms apart, each tick draws one
  stroke, and the second stroke is painted as a dot, where chaining gives a segment
  from the first stroke.
\<close>
theorem tick_restarts_chain:
  "map_option cv_ops
     (canvas (animationLoop 32 32 (animationLoop 16 16
        (snd (play 0 (snd (loadSession
           (example_session [example_point 10 20, example_point 30 40])
           (createPlayer 50 False)))))))) =
     Some [Dot 10 20 (5 / 2) ''#000000'' 1, Dot 30 40 (5 / 2) ''#000000'' 1] \<and>
   chained None [example_point 10 20, example_point 30 40] =
     [Dot 10 20 (5 / 2) ''#000000'' 1, Segment 10 20 30 40 5 ''#000000'' 1]"
proof -
  let ?sess = "example_session [example_point 10 20, example_point 30 40]"
  let ?playing = "snd (play 0 (snd (loadSession ?sess (createPlayer 50 False))))"
  let ?first = "animationLoop 16 16 ?playing"
  have st: "strokes ?sess = [example_point 10 20, example_point 30 40]"
    by (simp add: example_session_def)
  then have ne: "strokes ?sess \<noteq> []" by simp
  note playing = playing_state [OF ne, of 50 False]
  from playing(7) obtain c where c: "canvas ?playing = Some c" "cv_ops c = []" by blast
  have lt: "currentStrokeIndex ?playing < length (strokes ?sess)"
    using playing(5) st by simp
  have first: "?first = ?playing\<lparr>lastFrameTime := 16, currentStrokeIndex := 1,
                  canvas := Some (c\<lparr>cv_ops := chained None [example_point 10 20]\<rparr>),
                  frameRequested := True\<rparr>"
    using animationLoop_draws [OF playing(1,2,4) lt c(1), of 16 16]
    by (simp add: budget_50 [OF playing(6)] playing(5,9) st c(2) strokes_in_tick_def
                  to_double_examples)
  have f: "isPlaying ?first" "\<not> isPaused ?first" "playerSession ?first = Some ?sess"
    "currentStrokeIndex ?first < length (strokes ?sess)"
    "canvas ?first = Some (c\<lparr>cv_ops := chained None [example_point 10 20]\<rparr>)"
    "speed ?first = 50" "lastFrameTime ?first = 16" "currentStrokeIndex ?first = 1"
    unfolding first using playing st by simp_all
  have "map_option cv_ops (canvas (animationLoop 32 32 ?first)) =
          Some (chained None [example_point 10 20] @ chained None [example_point 30 40])"
    using animationLoop_draws [OF f(1,2,3,4,5), of 32 32]
    by (simp add: budget_50 [OF f(6)] f(7,8) st strokes_in_tick_def to_double_examples)
  then show ?thesis
    by (simp add: example_point_def round_double_examples)
qed

end
